theory Spec2Isabelle
  imports Complex_Main
begin

section \<open>JavaScript values used by the client\<close>

text \<open>
  Strings are lists of 8-bit characters, read as the UTF-16 code units below 256.
  \<open>trim\<close> is exact on these strings. \<open>toUpperCase\<close> and the form encoding are given on
  the ASCII range: they are exact on ASCII strings.

  A value that is thrown (or with which a promise rejects) is either an \<open>Error\<close>
  instance with its message (\<open>TypeError\<close> and \<open>SyntaxError\<close> are \<open>Error\<close> instances
  too), or some other value, for which \<open>err instanceof Error\<close> is false.
\<close>

datatype thrown = Error string | NonError

text \<open>\<open>Number.prototype.toString\<close> on integers: plain decimal digits.\<close>

definition digit :: "nat \<Rightarrow> char" where
  "digit d = ''0123456789'' ! (d mod 10)"

fun show_nat :: "nat \<Rightarrow> string" where
  "show_nat n = (if n < 10 then [digit n] else show_nat (n div 10) @ [digit n])"

declare show_nat.simps [simp del]

definition show_int :: "int \<Rightarrow> string" where
  "show_int i = (if i < 0 then ''-'' @ show_nat (nat (- i)) else show_nat (nat i))"

text \<open>
  \<open>s.charAt(0).toUpperCase() + s.slice(1)\<close>, the capitalisation used for labels.
  \<open>charAt(0)\<close> of the empty string is the empty string.
\<close>

definition toUpperCase_char :: "char \<Rightarrow> char" where
  "toUpperCase_char c =
     (case map_of (zip ''abcdefghijklmnopqrstuvwxyz'' ''ABCDEFGHIJKLMNOPQRSTUVWXYZ'') c of
        Some u \<Rightarrow> u
      | None \<Rightarrow> c)"

definition capitalize :: "string \<Rightarrow> string" where
  "capitalize s = map toUpperCase_char (take 1 s) @ drop 1 s"

text \<open>
  \<open>String.prototype.trim\<close>: white space and line terminators are stripped from both
  ends. Among the code units below 256 these are TAB, LF, VT, FF, CR, SPACE and the
  no-break space U+00A0.
\<close>

definition is_whitespace :: "char \<Rightarrow> bool" where
  "is_whitespace c = (of_char c \<in> {9, 10, 11, 12, 13, 32, 160 :: nat})"

definition trim :: "string \<Rightarrow> string" where
  "trim s = rev (dropWhile is_whitespace (rev (dropWhile is_whitespace s)))"

subsection \<open>Parsed JSON documents\<close>

text \<open>
  What \<open>response.json()\<close> resolves to. Numbers are integers here (status codes and
  counts); an object is the list of its own properties in enumeration order, their
  names pairwise different.
\<close>

datatype json =
    JNull
  | JBool bool
  | JNum int
  | JStr string
  | JArr "json list"
  | JObj "(string \<times> json) list"

text \<open>
  Property read \<open>v.k\<close> for a name \<open>k\<close> that no prototype defines: \<open>None\<close> is
  \<open>undefined\<close>; reading a property of \<open>null\<close> throws a \<open>TypeError\<close>.
\<close>

definition js_get :: "json \<Rightarrow> string \<Rightarrow> thrown + json option" where
  "js_get v k =
     (case v of
        JNull \<Rightarrow> Inl (Error (''Cannot read properties of null (reading '' @ k @ '')''))
      | JObj ps \<Rightarrow> Inr (map_of ps k)
      | _ \<Rightarrow> Inr None)"

text \<open>Truthiness, as \<open>||\<close> and \<open>if\<close> test it.\<close>

fun truthy :: "json option \<Rightarrow> bool" where
  "truthy None = False"
| "truthy (Some JNull) = False"
| "truthy (Some (JBool b)) = b"
| "truthy (Some (JNum n)) = (n \<noteq> 0)"
| "truthy (Some (JStr s)) = (s \<noteq> [])"
| "truthy (Some (JArr xs)) = True"
| "truthy (Some (JObj ps)) = True"

fun join :: "string \<Rightarrow> string list \<Rightarrow> string" where
  "join sep [] = []"
| "join sep [x] = x"
| "join sep (x # y # ys) = x @ sep @ join sep (y # ys)"

fun sequence :: "(thrown + 'a) list \<Rightarrow> thrown + 'a list" where
  "sequence [] = Inr []"
| "sequence (Inl e # rs) = Inl e"
| "sequence (Inr x # rs) = (case sequence rs of Inl e \<Rightarrow> Inl e | Inr xs \<Rightarrow> Inr (x # xs))"

text \<open>
  The abstract operation \<open>ToString\<close>, which \<open>new Error(message)\<close> applies to its
  argument. An array joins its elements with commas (\<open>null\<close> elements as empty strings);
  an object parsed from JSON is \<open>[object Object]\<close>, unless an own property hides
  \<open>Object.prototype.toString\<close> by a value that cannot be called, and then the conversion
  throws.
\<close>

fun ToString :: "json \<Rightarrow> thrown + string" where
  "ToString JNull = Inr ''null''"
| "ToString (JBool b) = Inr (if b then ''true'' else ''false'')"
| "ToString (JNum n) = Inr (show_int n)"
| "ToString (JStr s) = Inr s"
| "ToString (JArr xs) =
     (case sequence (map (\<lambda>x. if x = JNull then Inr [] else ToString x) xs) of
        Inl e \<Rightarrow> Inl e
      | Inr ss \<Rightarrow> Inr (join '','' ss))"
| "ToString (JObj ps) =
     (if ''toString'' \<in> set (map fst ps)
      then Inl (Error ''Cannot convert object to primitive value'')
      else Inr ''[object Object]'')"

section \<open>Domain model (types/api.ts)\<close>

text \<open>
  The interfaces of \<open>types/api.ts\<close>. Identities and counts are integers, percentages
  are rationals. A \<open>Record<string, number>\<close> is the list of its own properties in
  enumeration order (the order of \<open>Object.keys\<close> and \<open>Object.entries\<close>), their names
  pairwise different. The payload
  is an unchecked cast of a JSON document, so the collections the code reads may be
  missing at run time: they are options, \<open>None\<close> standing for \<open>undefined\<close>.
\<close>

datatype experiment_status = draft | running | paused | completed

record Variant =
  id_v :: int
  experiment_id_v :: int
  name_v :: string
  traffic_allocation :: rat
  config :: "(string \<times> json) list option"

record Experiment =
  id_e :: int
  name_e :: string
  description :: "string option"
  status_e :: experiment_status
  created_at :: string
  started_at :: "string option"
  ended_at :: "string option"
  variants :: "Variant list option"

record ExperimentsListResponse =
  experiments_l :: "Experiment list option"
  total_l :: int
  limit_l :: int
  offset_l :: int

record VariantMetrics =
  variant_id :: int
  variant_name :: string
  total_assignments :: int
  total_events :: int
  unique_users_with_events :: int
  conversion_rate :: rat
  events_by_type :: "(string \<times> int) list option"
  events_per_user :: rat

record TimeSeriesDataPoint =
  timestamp :: string
  variant_id_ts :: int
  variant_name_ts :: string
  assignments_ts :: int
  events_ts :: int
  conversion_rate_ts :: rat

datatype confidence = low | medium | high | significant

record ResultsSummary =
  total_assignments_s :: int
  total_events_s :: int
  overall_conversion_rate :: rat
  leading_variant :: "string option"
  confidence_level :: confidence

record ExperimentResults =
  experiment_id :: int
  experiment_name :: string
  experiment_status :: experiment_status
  analysis_start :: string
  analysis_end :: string
  summary :: ResultsSummary
  variant_metrics :: "VariantMetrics list option"
  time_series :: "TimeSeriesDataPoint list option"
  events_by_type_r :: "(string \<times> int) list option"
  generated_at :: string

section \<open>Chart data (components/ExperimentsDashboard.tsx)\<close>

text \<open>
  The five view models computed on every render from \<open>selectedExperiment\<close> and
  \<open>results\<close>. A transformer that would throw returns \<open>Inl\<close>.
\<close>

record allocation_row =
  variant_a :: string
  allocation :: rat

record conversion_row =
  variant_c :: string
  rate_c :: rat
  assignments_c :: int
  events_c :: int

record histogram_row =
  type_h :: string
  count_h :: int

record time_series_row =
  date_t :: string
  variant_t :: string
  conversions_t :: int
  rate_t :: rat

text \<open>
  \<open>selectedExperiment?.variants.map(...) || []\<close>: the optional chain yields
  \<open>undefined\<close> for a \<open>null\<close> experiment; \<open>variants\<close> itself is read unguarded.
\<close>

definition variantAllocationData :: "Experiment option \<Rightarrow> thrown + allocation_row list" where
  "variantAllocationData selectedExperiment =
     (case selectedExperiment of
        None \<Rightarrow> Inr []
      | Some e \<Rightarrow>
          (case variants e of
             None \<Rightarrow> Inl (Error ''Cannot read properties of undefined (reading map)'')
           | Some vs \<Rightarrow>
               Inr (map (\<lambda>v. \<lparr>variant_a = name_v v, allocation = traffic_allocation v\<rparr>) vs)))"

text \<open>\<open>results?.variant_metrics?.map(...) || []\<close>\<close>

definition conversionData :: "ExperimentResults option \<Rightarrow> thrown + conversion_row list" where
  "conversionData results =
     (case results of
        None \<Rightarrow> Inr []
      | Some r \<Rightarrow>
          (case variant_metrics r of
             None \<Rightarrow> Inr []
           | Some vms \<Rightarrow>
               Inr (map (\<lambda>vm. \<lparr>variant_c = variant_name vm, rate_c = conversion_rate vm,
                                assignments_c = total_assignments vm,
                                events_c = total_events vm\<rparr>) vms)))"

text \<open>\<open>results?.events_by_type ? Object.entries(results.events_by_type).map(...) : []\<close>\<close>

definition eventsByTypeData :: "ExperimentResults option \<Rightarrow> thrown + histogram_row list" where
  "eventsByTypeData results =
     (case results of
        None \<Rightarrow> Inr []
      | Some r \<Rightarrow>
          (case events_by_type_r r of
             None \<Rightarrow> Inr []
           | Some m \<Rightarrow>
               Inr (map (\<lambda>(type, count). \<lparr>type_h = capitalize type, count_h = count\<rparr>) m)))"

subsection \<open>The variant by event type matrix\<close>

text \<open>
  A row is a JavaScript object: a finite map from property names to values, which the
  chart reads by name. A value is the label string, a number, or (see \<open>cell_of\<close>) a
  member inherited from \<open>Object.prototype\<close>.
\<close>

datatype cell = CStr string | CNum int | CInherited string

type_synonym row = "string \<rightharpoonup> cell"

text \<open>
  \<open>eventTypes.add(type)\<close> on a \<open>Set<string>\<close>, which keeps insertion order:
  \<open>Array.from\<close> lists the members in the order they were first added.
\<close>

definition set_add :: "string list \<Rightarrow> string \<Rightarrow> string list" where
  "set_add s x = (if x \<in> set s then s else s @ [x])"

text \<open>The names every plain object inherits from \<open>Object.prototype\<close>.\<close>

definition Object_prototype_names :: "string list" where
  "Object_prototype_names =
     [''constructor'', ''hasOwnProperty'', ''isPrototypeOf'', ''propertyIsEnumerable'',
      ''toLocaleString'', ''toString'', ''valueOf'', ''__proto__'',
      ''__defineGetter__'', ''__defineSetter__'', ''__lookupGetter__'', ''__lookupSetter__'']"

text \<open>
  \<open>vm.events_by_type[eventType] || 0\<close>: an own property gives its count (a zero count
  is falsy and gives the literal \<open>0\<close>); a name found on the prototype gives the inherited
  member, which is truthy; any other name gives \<open>undefined\<close>, hence \<open>0\<close>.
\<close>

definition cell_of :: "(string \<times> int) list \<Rightarrow> string \<Rightarrow> cell" where
  "cell_of m eventType =
     (case map_of m eventType of
        Some n \<Rightarrow> (if n \<noteq> 0 then CNum n else CNum 0)
      | None \<Rightarrow>
          (if eventType \<in> set Object_prototype_names then CInherited eventType else CNum 0))"

text \<open>
  \<open>row[name] = value\<close>. Assigning to \<open>__proto__\<close> runs the inherited setter, which
  creates no own property.
\<close>

definition row_set :: "row \<Rightarrow> string \<Rightarrow> cell \<Rightarrow> row" where
  "row_set r name v = (if name = ''__proto__'' then r else r(name \<mapsto> v))"

text \<open>First pass: \<open>Object.keys(vm.events_by_type).forEach(type => eventTypes.add(type))\<close>.\<close>

fun collect_event_types :: "string list \<Rightarrow> VariantMetrics list \<Rightarrow> thrown + string list" where
  "collect_event_types eventTypes [] = Inr eventTypes"
| "collect_event_types eventTypes (vm # vms) =
     (case events_by_type vm of
        None \<Rightarrow> Inl (Error ''Cannot convert undefined or null to object'')
      | Some m \<Rightarrow> collect_event_types (foldl set_add eventTypes (map fst m)) vms)"

text \<open>Second pass, for one event type: the \<open>forEach\<close> that fills the row.\<close>

fun fill_row :: "row \<Rightarrow> string \<Rightarrow> VariantMetrics list \<Rightarrow> thrown + row" where
  "fill_row r eventType [] = Inr r"
| "fill_row r eventType (vm # vms) =
     (case events_by_type vm of
        None \<Rightarrow> Inl (Error ''Cannot read properties of undefined'')
      | Some m \<Rightarrow> fill_row (row_set r (variant_name vm) (cell_of m eventType)) eventType vms)"

definition variantEventsData :: "ExperimentResults option \<Rightarrow> thrown + row list" where
  "variantEventsData results =
     (case results of
        None \<Rightarrow> Inr []
      | Some r \<Rightarrow>
          (case variant_metrics r of
             None \<Rightarrow> Inr []
           | Some vms \<Rightarrow>
               (case collect_event_types [] vms of
                  Inl e \<Rightarrow> Inl e
                | Inr eventTypes \<Rightarrow>
                    sequence
                      (map (\<lambda>eventType.
                              fill_row [''eventType'' \<mapsto> CStr (capitalize eventType)]
                                eventType vms)
                         eventTypes))))"

text \<open>
  \<open>results?.time_series?.map(...) || []\<close>. The date label is
  \<open>new Date(ts.timestamp).toLocaleDateString()\<close>, which depends on the locale of the
  browser: it is the parameter \<open>toLocaleDateString\<close>. It never throws (an unreadable
  timestamp is formatted as \<open>Invalid Date\<close>).
\<close>

definition timeSeriesData ::
  "(string \<Rightarrow> string) \<Rightarrow> ExperimentResults option \<Rightarrow> thrown + time_series_row list" where
  "timeSeriesData toLocaleDateString results =
     (case results of
        None \<Rightarrow> Inr []
      | Some r \<Rightarrow>
          (case time_series r of
             None \<Rightarrow> Inr []
           | Some tss \<Rightarrow>
               Inr (map (\<lambda>ts. \<lparr>date_t = toLocaleDateString (timestamp ts),
                                variant_t = variant_name_ts ts,
                                conversions_t = events_ts ts,
                                rate_t = conversion_rate_ts ts\<rparr>) tss)))"

section \<open>The API client (lib/api.ts)\<close>

subsection \<open>Requests, responses and the network\<close>

text \<open>
  The members of \<open>RequestInit\<close> the client can pass on, and a request as \<open>fetch\<close>
  receives it. A headers object is the list of its properties; \<open>obj_set\<close> is the
  assignment \<open>headers[name] = value\<close>.
\<close>

record RequestInit =
  http_method :: "string option"
  headers :: "(string \<times> string) list"
  body :: "string option"

record request = RequestInit +
  url :: string

fun obj_set :: "(string \<times> 'v) list \<Rightarrow> string \<Rightarrow> 'v \<Rightarrow> (string \<times> 'v) list" where
  "obj_set [] name v = [(name, v)]"
| "obj_set ((k, x) # ps) name v =
     (if k = name then (k, v) # ps else (k, x) # obj_set ps name v)"

text \<open>
  What \<open>fetch\<close> gives back. The promise rejects (no response at all), or it resolves
  to a response with a status. \<open>response.json()\<close> then rejects (\<open>Unparsable\<close>: the body
  is absent or is not JSON), or resolves to the parsed document. The failure path reads
  the document as untyped JSON; the success path returns it, unchecked, at the
  TypeScript type of the operation's result: \<open>Parsed j v\<close> holds both readings.
\<close>

datatype 'a response_body = Unparsable thrown | Parsed json 'a

datatype 'a fetch_result = Rejected thrown | Response nat "'a response_body"

text \<open>\<open>response.ok\<close>: the status is in the range 200 to 299.\<close>

definition ok :: "nat \<Rightarrow> bool" where
  "ok status = (200 \<le> status \<and> status \<le> 299)"

subsection \<open>Module state\<close>

text \<open>
  The module-level bindings of \<open>api.ts\<close>: the constant \<open>API_BASE_URL\<close> (read once
  from the environment) and the variable \<open>authToken\<close>. The field \<open>sent\<close> is not in the
  source: it logs every call of \<open>fetch\<close>, in order, so that requests can be counted.
\<close>

record api =
  API_BASE_URL :: string
  authToken :: "string option"
  sent :: "request list"

definition setAuthToken :: "string \<Rightarrow> api \<Rightarrow> api" where
  "setAuthToken token st = st\<lparr>authToken := Some token\<rparr>"

definition getAuthToken :: "api \<Rightarrow> string option" where
  "getAuthToken st = authToken st"

definition fetch :: "(request \<Rightarrow> 'a fetch_result) \<Rightarrow> request \<Rightarrow> api \<Rightarrow> 'a fetch_result \<times> api" where
  "fetch net req st = (net req, st\<lparr>sent := sent st @ [req]\<rparr>)"

subsection \<open>fetchWithAuth\<close>

text \<open>\<open>a || b\<close> on JSON values, and \<open>throw new Error(message)\<close>.\<close>

definition js_or :: "json option \<Rightarrow> json \<Rightarrow> json" where
  "js_or a b = (case a of Some v \<Rightarrow> (if truthy a then v else b) | None \<Rightarrow> b)"

definition new_Error :: "json \<Rightarrow> thrown" where
  "new_Error message = (case ToString message of Inl e \<Rightarrow> e | Inr s \<Rightarrow> Error s)"

text \<open>
  The failure branch:
  \<^verbatim>\<open>const error = await response.json().catch(() => ({ detail: 'Unknown error' }));\<close>
  \<^verbatim>\<open>throw new Error(error.detail || `HTTP ${response.status}`);\<close>
\<close>

definition http_failure :: "nat \<Rightarrow> 'a response_body \<Rightarrow> thrown" where
  "http_failure status b =
     (let error = (case b of
                     Unparsable _ \<Rightarrow> JObj [(''detail'', JStr ''Unknown error'')]
                   | Parsed j _ \<Rightarrow> j)
      in case js_get error ''detail'' of
           Inl e \<Rightarrow> e
         | Inr detail \<Rightarrow> new_Error (js_or detail (JStr (''HTTP '' @ show_nat status))))"

text \<open>
  The \<open>headers\<close> object that \<open>fetchWithAuth\<close> builds: the content type, then the
  caller's headers spread over it, then the bearer token when one is stored
  (\<open>if (authToken)\<close>: the empty string is falsy).
\<close>

definition request_headers :: "api \<Rightarrow> RequestInit \<Rightarrow> (string \<times> string) list" where
  "request_headers st options =
     (let headers0 = foldl (\<lambda>h (k, v). obj_set h k v)
                       [(''Content-Type'', ''application/json'')] (headers options)
      in case authToken st of
           Some t \<Rightarrow>
             (if t \<noteq> [] then obj_set headers0 ''Authorization'' (''Bearer '' @ t)
              else headers0)
         | None \<Rightarrow> headers0)"

definition fetchWithAuth ::
  "(request \<Rightarrow> 'a fetch_result) \<Rightarrow> string \<Rightarrow> RequestInit \<Rightarrow> api \<Rightarrow> (thrown + 'a) \<times> api" where
  "fetchWithAuth net endpoint options st =
     (let req = \<lparr>http_method = http_method options, headers = request_headers st options,
                 body = body options, url = API_BASE_URL st @ endpoint\<rparr>
      in case fetch net req st of
           (Rejected e, st') \<Rightarrow> (Inl e, st')
         | (Response status b, st') \<Rightarrow>
             (if \<not> ok status then (Inl (http_failure status b), st')
              else (case b of
                      Unparsable e \<Rightarrow> (Inl e, st')
                    | Parsed j v \<Rightarrow> (Inr v, st'))))"

text \<open>The default \<open>options = {}\<close>.\<close>

definition no_options :: RequestInit where
  "no_options = \<lparr>http_method = None, headers = [], body = None\<rparr>"

subsection \<open>The operations\<close>

text \<open>\<open>checkHealth\<close> calls \<open>fetch\<close> directly, with no options, and parses the body.\<close>

definition checkHealth :: "(request \<Rightarrow> 'a fetch_result) \<Rightarrow> api \<Rightarrow> (thrown + 'a) \<times> api" where
  "checkHealth net st =
     (case fetch net \<lparr>http_method = None, headers = [], body = None,
                       url = API_BASE_URL st @ ''/health''\<rparr> st of
        (Rejected e, st') \<Rightarrow> (Inl e, st')
      | (Response status b, st') \<Rightarrow>
          (case b of
             Unparsable e \<Rightarrow> (Inl e, st')
           | Parsed j v \<Rightarrow> (Inr v, st')))"

text \<open>
  \<open>URLSearchParams\<close>: a list of name and value pairs. \<open>set\<close> overwrites the first pair
  of that name and removes the others, or appends. \<open>toString\<close> is the
  \<open>application/x-www-form-urlencoded\<close> serialisation.
\<close>

type_synonym URLSearchParams = "(string \<times> string) list"

fun sp_set :: "URLSearchParams \<Rightarrow> string \<Rightarrow> string \<Rightarrow> URLSearchParams" where
  "sp_set [] name v = [(name, v)]"
| "sp_set ((k, x) # ps) name v =
     (if k = name then (k, v) # filter (\<lambda>p. fst p \<noteq> name) ps else (k, x) # sp_set ps name v)"

definition hex_digit :: "nat \<Rightarrow> char" where
  "hex_digit d = ''0123456789ABCDEF'' ! (d mod 16)"

definition urlencode_char :: "char \<Rightarrow> string" where
  "urlencode_char c =
     (if c = CHR '' '' then ''+''
      else if c \<in> set ''abcdefghijklmnopqrstuvwxyzABCDEFGHIJKLMNOPQRSTUVWXYZ0123456789*-._''
      then [c]
      else [CHR ''%'', hex_digit (of_char c div 16), hex_digit (of_char c)])"

definition urlencode :: "string \<Rightarrow> string" where
  "urlencode s = concat (map urlencode_char s)"

definition sp_toString :: "URLSearchParams \<Rightarrow> string" where
  "sp_toString ps = join ''&'' (map (\<lambda>(k, v). urlencode k @ ''='' @ urlencode v) ps)"

text \<open>The optional parameters of \<open>getExperiments\<close>; \<open>None\<close> is an absent member.\<close>

record ExperimentsParams =
  status_p :: "string option"
  limit_p :: "int option"
  offset_p :: "int option"

text \<open>
  \<open>if (params?.x) searchParams.set('x', ...)\<close>: the guard is truthiness, so a string
  must be non-empty and a number non-zero.
\<close>

definition truthy_string :: "string option \<Rightarrow> bool" where
  "truthy_string a = (case a of Some s \<Rightarrow> s \<noteq> [] | None \<Rightarrow> False)"

definition truthy_number :: "int option \<Rightarrow> bool" where
  "truthy_number a = (case a of Some n \<Rightarrow> n \<noteq> 0 | None \<Rightarrow> False)"

definition set_if_string :: "string \<Rightarrow> string option \<Rightarrow> URLSearchParams \<Rightarrow> URLSearchParams" where
  "set_if_string name a sp =
     (case a of Some s \<Rightarrow> (if truthy_string a then sp_set sp name s else sp) | None \<Rightarrow> sp)"

definition set_if_number :: "string \<Rightarrow> int option \<Rightarrow> URLSearchParams \<Rightarrow> URLSearchParams" where
  "set_if_number name a sp =
     (case a of Some n \<Rightarrow> (if truthy_number a then sp_set sp name (show_int n) else sp) | None \<Rightarrow> sp)"

definition getExperiments_searchParams :: "ExperimentsParams option \<Rightarrow> URLSearchParams" where
  "getExperiments_searchParams params =
     (case params of
        None \<Rightarrow> []
      | Some p \<Rightarrow>
          (let sp1 = set_if_string ''status'' (status_p p) [];
               sp2 = set_if_number ''limit'' (limit_p p) sp1
           in set_if_number ''offset'' (offset_p p) sp2))"

text \<open>\<open>`${path}${query ? `?${query}` : ''}`\<close>\<close>

definition with_query :: "string \<Rightarrow> URLSearchParams \<Rightarrow> string" where
  "with_query path sp = (let query = sp_toString sp in path @ (if query \<noteq> [] then ''?'' @ query else []))"

definition getExperiments ::
  "(request \<Rightarrow> ExperimentsListResponse fetch_result) \<Rightarrow> ExperimentsParams option \<Rightarrow> api
     \<Rightarrow> (thrown + ExperimentsListResponse) \<times> api" where
  "getExperiments net params st =
     fetchWithAuth net (with_query ''/experiments'' (getExperiments_searchParams params))
       no_options st"

definition getExperiment ::
  "(request \<Rightarrow> Experiment fetch_result) \<Rightarrow> int \<Rightarrow> api \<Rightarrow> (thrown + Experiment) \<times> api" where
  "getExperiment net i st = fetchWithAuth net (''/experiments/'' @ show_int i) no_options st"

datatype results_format = Full | Summary | Metrics_only

datatype granularity = Hour | Day | Week

fun format_string :: "results_format \<Rightarrow> string" where
  "format_string Full = ''full''"
| "format_string Summary = ''summary''"
| "format_string Metrics_only = ''metrics_only''"

fun granularity_string :: "granularity \<Rightarrow> string" where
  "granularity_string Hour = ''hour''"
| "granularity_string Day = ''day''"
| "granularity_string Week = ''week''"

record ResultsParams =
  start_date :: "string option"
  end_date :: "string option"
  event_types :: "string option"
  format :: "results_format option"
  include_time_series :: "bool option"
  time_series_granularity :: "granularity option"

definition getExperimentResults_searchParams :: "ResultsParams option \<Rightarrow> URLSearchParams" where
  "getExperimentResults_searchParams params =
     (case params of
        None \<Rightarrow> []
      | Some p \<Rightarrow>
          (let sp1 = set_if_string ''start_date'' (start_date p) [];
               sp2 = set_if_string ''end_date'' (end_date p) sp1;
               sp3 = set_if_string ''event_types'' (event_types p) sp2;
               sp4 = set_if_string ''format'' (map_option format_string (format p)) sp3;
               sp5 = (if include_time_series p = Some True
                      then sp_set sp4 ''include_time_series'' ''true'' else sp4)
           in set_if_string ''time_series_granularity''
                (map_option granularity_string (time_series_granularity p)) sp5))"

definition getExperimentResults ::
  "(request \<Rightarrow> ExperimentResults fetch_result) \<Rightarrow> int \<Rightarrow> ResultsParams option \<Rightarrow> api
     \<Rightarrow> (thrown + ExperimentResults) \<times> api" where
  "getExperimentResults net i params st =
     fetchWithAuth net
       (with_query (''/experiments/'' @ show_int i @ ''/results'')
          (getExperimentResults_searchParams params))
       no_options st"

section \<open>The dashboard controller (components/ExperimentsDashboard.tsx)\<close>

text \<open>
  The \<open>useState\<close> cells of the component. A handler is a function from the state of
  the component and of the API module to their state when the handler has run to its
  end; the network it talks to is the parameter \<open>net\<close>. \<open>handleLogin\<close> is given as
  one step: while it waits the Connect button is disabled (\<open>loading\<close>), and the health
  probe, the only other work that can be pending, writes \<open>apiStatus\<close> alone.
  \<open>loadExperimentResults\<close> can overlap with another selection and is given in its two
  halves.
\<close>

datatype api_status = Checking | Online | Offline

record dashboard =
  token :: string
  isAuthenticated :: bool
  apiStatus :: api_status
  experiments :: "Experiment list"
  selectedExperiment :: "Experiment option"
  results :: "ExperimentResults option"
  loading :: bool
  error :: "string option"
  showJson :: bool

definition initial_dashboard :: dashboard where
  "initial_dashboard =
     \<lparr>token = [], isAuthenticated = False, apiStatus = Checking, experiments = [],
      selectedExperiment = None, results = None, loading = False, error = None,
      showJson = False\<rparr>"

text \<open>\<open>err instanceof Error ? err.message : fallback\<close>\<close>

definition error_message :: "thrown \<Rightarrow> string \<Rightarrow> string" where
  "error_message err fallback = (case err of Error m \<Rightarrow> m | NonError \<Rightarrow> fallback)"

text \<open>
  The effect run on mount:
  \<^verbatim>\<open>checkHealth().then(() => setApiStatus('online')).catch(() => setApiStatus('offline'))\<close>
\<close>

definition useEffect_checkHealth ::
  "(request \<Rightarrow> 'a fetch_result) \<Rightarrow> dashboard \<times> api \<Rightarrow> dashboard \<times> api" where
  "useEffect_checkHealth net = (\<lambda>(s, st).
     (case checkHealth net st of
        (Inr v, st') \<Rightarrow> (s\<lparr>apiStatus := Online\<rparr>, st')
      | (Inl e, st') \<Rightarrow> (s\<lparr>apiStatus := Offline\<rparr>, st')))"

definition handleLogin ::
  "(request \<Rightarrow> ExperimentsListResponse fetch_result) \<Rightarrow> dashboard \<times> api \<Rightarrow> dashboard \<times> api" where
  "handleLogin net = (\<lambda>(s, st).
     if trim (token s) = [] then (s\<lparr>error := Some ''Please enter an API token''\<rparr>, st)
     else
       (let st1 = setAuthToken (token s) st;
            s1 = s\<lparr>loading := True, error := None\<rparr>
        in case getExperiments net None st1 of
             (Inr response, st2) \<Rightarrow>
               (s1\<lparr>experiments := (case experiments_l response of Some es \<Rightarrow> es | None \<Rightarrow> []),
                   isAuthenticated := True, loading := False\<rparr>, st2)
           | (Inl err, st2) \<Rightarrow>
               (s1\<lparr>error := Some (error_message err ''Authentication failed''),
                   isAuthenticated := False, loading := False\<rparr>, st2)))"

text \<open>The parameters \<open>loadExperimentResults\<close> always passes.\<close>

definition load_params :: ResultsParams where
  "load_params =
     \<lparr>start_date = None, end_date = None, event_types = None, format = Some Full,
      include_time_series = Some True, time_series_granularity = Some Day\<rparr>"

text \<open>
  \<open>loadExperimentResults\<close> is an \<open>async\<close> function: what stands before the \<open>await\<close>
  runs at once, what stands after it (the rest of \<open>try\<close>, \<open>catch\<close> and \<open>finally\<close>) runs
  when the request settles, on the state the component has by then. Nothing cancels a
  request in flight.
\<close>

definition loadExperimentResults_begin :: "Experiment \<Rightarrow> dashboard \<Rightarrow> dashboard" where
  "loadExperimentResults_begin experiment s =
     s\<lparr>selectedExperiment := Some experiment, loading := True, error := None\<rparr>"

definition loadExperimentResults_settle ::
  "thrown + ExperimentResults \<Rightarrow> dashboard \<Rightarrow> dashboard" where
  "loadExperimentResults_settle outcome s =
     (case outcome of
        Inr data \<Rightarrow> s\<lparr>results := Some data, loading := False\<rparr>
      | Inl err \<Rightarrow>
          s\<lparr>error := Some (error_message err ''Failed to load results''),
            results := None, loading := False\<rparr>)"

text \<open>A load during which no other handler runs.\<close>

definition loadExperimentResults ::
  "(request \<Rightarrow> ExperimentResults fetch_result) \<Rightarrow> Experiment \<Rightarrow> dashboard \<times> api
     \<Rightarrow> dashboard \<times> api" where
  "loadExperimentResults net experiment = (\<lambda>(s, st).
     (case getExperimentResults net (id_e experiment) (Some load_params) st of
        (outcome, st') \<Rightarrow>
          (loadExperimentResults_settle outcome (loadExperimentResults_begin experiment s),
           st')))"

text \<open>
  Two loads that overlap: the first experiment is selected and its request sent; before
  that request settles the second experiment is selected and its load runs to its end;
  then the first request settles.
\<close>

definition overlapping_loads ::
  "(request \<Rightarrow> ExperimentResults fetch_result) \<Rightarrow> Experiment \<Rightarrow>
   (request \<Rightarrow> ExperimentResults fetch_result) \<Rightarrow> Experiment \<Rightarrow> dashboard \<times> api
     \<Rightarrow> dashboard \<times> api" where
  "overlapping_loads net1 experiment1 net2 experiment2 = (\<lambda>(s, st).
     (case getExperimentResults net1 (id_e experiment1) (Some load_params) st of
        (outcome1, st1) \<Rightarrow>
          (case loadExperimentResults net2 experiment2
                  (loadExperimentResults_begin experiment1 s, st1) of
             (s2, st2) \<Rightarrow> (loadExperimentResults_settle outcome1 s2, st2))))"

text \<open>
  The grid's selection event; \<open>selectedRowsData\<close> may be missing or empty. It starts
  the load of the first selected row; the result given here is that of a load that
  nothing overlaps.
\<close>

definition handleExperimentSelect ::
  "(request \<Rightarrow> ExperimentResults fetch_result) \<Rightarrow> Experiment list option \<Rightarrow> dashboard \<times> api
     \<Rightarrow> dashboard \<times> api" where
  "handleExperimentSelect net selectedRowsData = (\<lambda>(s, st).
     (case selectedRowsData of
        Some (experiment # rest) \<Rightarrow> loadExperimentResults net experiment (s, st)
      | _ \<Rightarrow> (s, st)))"

section \<open>Example inputs\<close>

text \<open>Concrete values at which the properties below are instantiated.\<close>

definition example_metrics :: VariantMetrics where
  "example_metrics =
     \<lparr>variant_id = 1, variant_name = ''A'', total_assignments = 100, total_events = 20,
      unique_users_with_events = 18, conversion_rate = 12.5,
      events_by_type = Some [(''click'', 15), (''view'', 5)], events_per_user = 0.2\<rparr>"

definition example_results :: ExperimentResults where
  "example_results =
     \<lparr>experiment_id = 1, experiment_name = ''Checkout'', experiment_status = running,
      analysis_start = ''2024-01-01'', analysis_end = ''2024-01-31'',
      summary = \<lparr>total_assignments_s = 100, total_events_s = 20,
                  overall_conversion_rate = 12.5, leading_variant = Some ''A'',
                  confidence_level = low\<rparr>,
      variant_metrics = Some [example_metrics], time_series = Some [],
      events_by_type_r = Some [(''click'', 15), (''view'', 5)],
      generated_at = ''2024-02-01''\<rparr>"

definition example_experiment :: Experiment where
  "example_experiment =
     \<lparr>id_e = 7, name_e = ''Checkout'', description = None, status_e = running,
      created_at = ''2024-01-01'', started_at = Some ''2024-01-02'', ended_at = None,
      variants = Some
        [\<lparr>id_v = 1, experiment_id_v = 7, name_v = ''control'', traffic_allocation = 50,
          config = None\<rparr>,
         \<lparr>id_v = 2, experiment_id_v = 7, name_v = ''treatment'', traffic_allocation = 50,
          config = None\<rparr>]\<rparr>"

definition example_api :: api where
  "example_api = \<lparr>API_BASE_URL = ''http://localhost:8000'', authToken = None, sent = []\<rparr>"

definition empty_results :: ExperimentResults where
  "empty_results =
     example_results\<lparr>variant_metrics := Some [], time_series := Some [],
                     events_by_type_r := Some []\<rparr>"

definition absent_results :: ExperimentResults where
  "absent_results =
     example_results\<lparr>variant_metrics := None, time_series := None, events_by_type_r := None\<rparr>"

definition quiet_results :: ExperimentResults where
  "quiet_results =
     example_results\<lparr>variant_metrics := Some [example_metrics\<lparr>events_by_type := Some []\<rparr>]\<rparr>"

definition failing_net :: "request \<Rightarrow> 'a fetch_result" where
  "failing_net = (\<lambda>req.
     Response 500 (Unparsable (Error ''Unexpected end of JSON input'')))"

definition results_net :: "request \<Rightarrow> ExperimentResults fetch_result" where
  "results_net = (\<lambda>req.
     Response 200 (Parsed (JObj [(''experiment_id'', JNum 1)]) example_results))"

definition unhealthy_net :: "request \<Rightarrow> unit fetch_result" where
  "unhealthy_net = (\<lambda>req.
     Response 503 (Parsed (JObj [(''status'', JStr ''unhealthy'')]) ()))"

definition invalid_token_net :: "request \<Rightarrow> unit fetch_result" where
  "invalid_token_net = (\<lambda>req.
     Response 401
       (Parsed (JObj [(''detail'', JStr ''Invalid token''), (''status_code'', JNum 401)]) ()))"

definition no_detail_net :: "request \<Rightarrow> unit fetch_result" where
  "no_detail_net = (\<lambda>req.
     Response 404 (Parsed (JObj []) ()))"

definition blank_login :: dashboard where
  "blank_login = initial_dashboard\<lparr>token := ''   ''\<rparr>"

definition secret_login :: dashboard where
  "secret_login = initial_dashboard\<lparr>token := ''secret''\<rparr>"

definition zero_limit_params :: ExperimentsParams where
  "zero_limit_params = \<lparr>status_p = None, limit_p = Some 0, offset_p = None\<rparr>"

definition page_params :: ExperimentsParams where
  "page_params = \<lparr>status_p = Some ''running'', limit_p = Some 20, offset_p = Some 0\<rparr>"

definition no_variants_experiment :: Experiment where
  "no_variants_experiment = example_experiment\<lparr>variants := None\<rparr>"

definition no_events_results :: ExperimentResults where
  "no_events_results =
     example_results\<lparr>variant_metrics := Some [example_metrics\<lparr>events_by_type := None\<rparr>]\<rparr>"

definition other_experiment :: Experiment where
  "other_experiment = example_experiment\<lparr>id_e := 8, name_e := ''Pricing''\<rparr>"

definition offline_net :: "request \<Rightarrow> 'a fetch_result" where
  "offline_net = (\<lambda>req. Rejected (Error ''Failed to fetch''))"

definition null_body_net :: "request \<Rightarrow> unit fetch_result" where
  "null_body_net = (\<lambda>req. Response 500 (Parsed JNull ()))"

definition nbsp_login :: dashboard where
  "nbsp_login = initial_dashboard\<lparr>token := [CHR 0xA0, CHR 0x20]\<rparr>"

section \<open>The matrix as the specification words it\<close>

text \<open>
  The event types of one metrics entry and its count for a type (\<open>0\<close> when it has no
  entry for the type); a list in first-seen order with duplicates removed; and the union
  of the event types across the entries, in that order.
\<close>

definition event_keys :: "VariantMetrics \<Rightarrow> string list" where
  "event_keys vm = (case events_by_type vm of Some m \<Rightarrow> map fst m | None \<Rightarrow> [])"

definition event_count :: "VariantMetrics \<Rightarrow> string \<Rightarrow> int" where
  "event_count vm t =
     (case events_by_type vm of
        Some m \<Rightarrow> (case map_of m t of Some n \<Rightarrow> n | None \<Rightarrow> 0)
      | None \<Rightarrow> 0)"

fun first_seen :: "'a list \<Rightarrow> 'a list" where
  "first_seen [] = []"
| "first_seen (x # xs) = x # first_seen (filter (\<lambda>y. y \<noteq> x) xs)"

definition event_type_union :: "VariantMetrics list \<Rightarrow> string list" where
  "event_type_union vms = first_seen (concat (map event_keys vms))"

section \<open>Further example inputs\<close>

definition metrics_B :: VariantMetrics where
  "metrics_B =
     \<lparr>variant_id = 2, variant_name = ''B'', total_assignments = 90, total_events = 9,
      unique_users_with_events = 8, conversion_rate = 8.9,
      events_by_type = Some [(''view'', 7), (''purchase'', 2)], events_per_user = 0.1\<rparr>"

definition two_variant_results :: ExperimentResults where
  "two_variant_results = example_results\<lparr>variant_metrics := Some [example_metrics, metrics_B]\<rparr>"

definition clash_results :: ExperimentResults where
  "clash_results =
     example_results\<lparr>variant_metrics :=
       Some [example_metrics\<lparr>variant_name := ''eventType'',
                              events_by_type := Some [(''click'', 15)]\<rparr>]\<rparr>"

definition duplicate_results :: ExperimentResults where
  "duplicate_results =
     example_results\<lparr>variant_metrics :=
       Some [example_metrics\<lparr>events_by_type := Some [(''click'', 1)]\<rparr>,
             example_metrics\<lparr>variant_id := 2, events_by_type := Some [(''click'', 2)]\<rparr>]\<rparr>"

definition inherited_results :: ExperimentResults where
  "inherited_results =
     example_results\<lparr>variant_metrics :=
       Some [example_metrics\<lparr>events_by_type := Some [(''toString'', 3)]\<rparr>, metrics_B]\<rparr>"

section \<open>Verified properties\<close>

subsection \<open>Conversion view\<close>

text \<open>
  C3. For every results value whose \<open>variant_metrics\<close> is the list \<open>vms\<close>, the
  conversion view has one row per entry, in order, and the row of the \<open>i\<close>-th entry
  holds its \<open>variant_name\<close>, its \<open>conversion_rate\<close> exactly as received, its
  \<open>total_assignments\<close> and its \<open>total_events\<close>.
\<close>

theorem conversion_view:
  assumes "variant_metrics R = Some vms"
  shows "\<exists>rows. conversionData (Some R) = Inr rows \<and> length rows = length vms \<and>
           (\<forall>i < length vms.
              variant_c (rows ! i) = variant_name (vms ! i) \<and>
              rate_c (rows ! i) = conversion_rate (vms ! i) \<and>
              assignments_c (rows ! i) = total_assignments (vms ! i) \<and>
              events_c (rows ! i) = total_events (vms ! i))"
  using assms by (simp add: conversionData_def)

text \<open>
  The scenario of the specification: one entry named \<open>A\<close> with rate 12.5, 100
  assignments and 20 events gives exactly one row with these values.
\<close>

theorem conversion_view_witness:
  "variant_metrics example_results = Some [example_metrics] \<and>
   conversionData (Some example_results) =
     Inr [\<lparr>variant_c = ''A'', rate_c = 12.5, assignments_c = 100, events_c = 20\<rparr>]"
proof -
  have h: "variant_metrics example_results = Some [example_metrics]"
    by (simp add: example_results_def)
  from conversion_view [OF h] obtain rows where
    r: "conversionData (Some example_results) = Inr rows" "length rows = 1"
       "variant_c (rows ! 0) = ''A''" "rate_c (rows ! 0) = 12.5"
       "assignments_c (rows ! 0) = 100" "events_c (rows ! 0) = 20"
    by (auto simp: example_metrics_def)
  from r(2) obtain x where x: "rows = [x]"
    by (cases rows) auto
  with r show ?thesis using h by simp
qed

subsection \<open>Allocation view\<close>

text \<open>
  C7. For every experiment \<open>E\<close> whose variant list is \<open>V\<close>, the allocation view has
  exactly \<open>|V|\<close> rows, the \<open>i\<close>-th holding the name and the traffic allocation of the
  \<open>i\<close>-th variant unchanged; replacing the results snapshot of the dashboard by any
  value (present or \<open>null\<close>) does not change the view; with no experiment selected the
  view is empty.
\<close>

theorem allocation_view:
  "(variants E = Some V \<longrightarrow>
      (\<exists>rows. variantAllocationData (Some E) = Inr rows \<and> length rows = length V \<and>
         (\<forall>i < length V.
            variant_a (rows ! i) = name_v (V ! i) \<and>
            allocation (rows ! i) = traffic_allocation (V ! i)))) \<and>
   variantAllocationData (selectedExperiment (s\<lparr>results := r\<rparr>)) =
     variantAllocationData (selectedExperiment s) \<and>
   variantAllocationData None = Inr []"
  by (simp add: variantAllocationData_def)

theorem allocation_view_witness:
  "variantAllocationData (Some example_experiment) =
     Inr [\<lparr>variant_a = ''control'', allocation = 50\<rparr>,
          \<lparr>variant_a = ''treatment'', allocation = 50\<rparr>] \<and>
   variantAllocationData
     (selectedExperiment
        (initial_dashboard\<lparr>selectedExperiment := Some example_experiment,
                            results := Some example_results\<rparr>)) =
   variantAllocationData
     (selectedExperiment (initial_dashboard\<lparr>selectedExperiment := Some example_experiment\<rparr>))"
proof -
  let ?V = "[\<lparr>id_v = 1, experiment_id_v = 7, name_v = ''control'', traffic_allocation = 50,
               config = None\<rparr>,
             \<lparr>id_v = 2, experiment_id_v = 7, name_v = ''treatment'', traffic_allocation = 50,
               config = None\<rparr>]"
  have h: "variants example_experiment = Some ?V"
    by (simp add: example_experiment_def)
  note a = allocation_view [where E = example_experiment and V = ?V
      and s = "initial_dashboard\<lparr>selectedExperiment := Some example_experiment\<rparr>"
      and r = "Some example_results"]
  from a h obtain rows where
    r: "variantAllocationData (Some example_experiment) = Inr rows" "length rows = 2"
       "\<forall>i < 2. variant_a (rows ! i) = name_v (?V ! i) \<and>
          allocation (rows ! i) = traffic_allocation (?V ! i)"
    by auto
  from r(2) obtain x y where xy: "rows = [x, y]"
    by (cases rows; cases "tl rows") auto
  from r(3) [rule_format, of 0] r(3) [rule_format, of 1] xy
  have "x = \<lparr>variant_a = ''control'', allocation = 50\<rparr>"
    and "y = \<lparr>variant_a = ''treatment'', allocation = 50\<rparr>"
    by simp_all
  with r(1) xy a show ?thesis by simp
qed

subsection \<open>Transformers on absent and empty input\<close>

lemma collect_event_types_no_events:
  "\<forall>vm \<in> set vms. events_by_type vm = Some [] \<Longrightarrow> collect_event_types acc vms = Inr acc"
  by (induction vms) simp_all

text \<open>
  Every transformer returns the empty list, and does not throw, when the results
  snapshot is \<open>null\<close>, when no experiment is selected, and when the collection it reads
  (\<open>variants\<close>, \<open>variant_metrics\<close>, \<open>time_series\<close>, \<open>events_by_type\<close>) is empty; for the
  collections of the results that the code guards with \<open>?.\<close>, also when they are absent.
\<close>

lemma transformers_total_on_guarded_input:
  "variantAllocationData None = Inr [] \<and>
   (variants E = Some [] \<longrightarrow> variantAllocationData (Some E) = Inr []) \<and>
   conversionData None = Inr [] \<and>
   (variant_metrics R = None \<or> variant_metrics R = Some [] \<longrightarrow>
      conversionData (Some R) = Inr []) \<and>
   eventsByTypeData None = Inr [] \<and>
   (events_by_type_r R = None \<or> events_by_type_r R = Some [] \<longrightarrow>
      eventsByTypeData (Some R) = Inr []) \<and>
   variantEventsData None = Inr [] \<and>
   (variant_metrics R = None \<or> variant_metrics R = Some [] \<longrightarrow>
      variantEventsData (Some R) = Inr []) \<and>
   (variant_metrics R = Some vms \<and> (\<forall>vm \<in> set vms. events_by_type vm = Some []) \<longrightarrow>
      variantEventsData (Some R) = Inr []) \<and>
   timeSeriesData toLocaleDateString None = Inr [] \<and>
   (time_series R = None \<or> time_series R = Some [] \<longrightarrow>
      timeSeriesData toLocaleDateString (Some R) = Inr [])"
  by (auto simp: variantAllocationData_def conversionData_def eventsByTypeData_def
        variantEventsData_def timeSeriesData_def collect_event_types_no_events)

lemma transformers_total_on_guarded_input_examples:
  "variantAllocationData (Some (example_experiment\<lparr>variants := Some []\<rparr>)) = Inr [] \<and>
   conversionData (Some empty_results) = Inr [] \<and>
   eventsByTypeData (Some empty_results) = Inr [] \<and>
   variantEventsData (Some empty_results) = Inr [] \<and>
   timeSeriesData id (Some empty_results) = Inr [] \<and>
   conversionData (Some absent_results) = Inr [] \<and>
   eventsByTypeData (Some absent_results) = Inr [] \<and>
   variantEventsData (Some absent_results) = Inr [] \<and>
   timeSeriesData id (Some absent_results) = Inr [] \<and>
   variantEventsData (Some quiet_results) = Inr []"
  using
    transformers_total_on_guarded_input [where E = "example_experiment\<lparr>variants := Some []\<rparr>"
      and R = empty_results and vms = "[]" and toLocaleDateString = id]
    transformers_total_on_guarded_input [where R = absent_results and toLocaleDateString = id]
    transformers_total_on_guarded_input [where R = quiet_results
      and vms = "[example_metrics\<lparr>events_by_type := Some []\<rparr>]"]
  by (simp add: empty_results_def absent_results_def quiet_results_def)

text \<open>
  The two collections that the code reads without a guard are another matter: an
  experiment without \<open>variants\<close>, or a metrics entry without \<open>events_by_type\<close>, makes
  the transformer throw.
\<close>

lemma unguarded_collections_throw:
  "variants E = None \<Longrightarrow> \<exists>e. variantAllocationData (Some E) = Inl e"
  "variant_metrics R = Some (vm # vms) \<Longrightarrow> events_by_type vm = None \<Longrightarrow>
     \<exists>e. variantEventsData (Some R) = Inl e"
  by (simp_all add: variantAllocationData_def variantEventsData_def)

text \<open>
  C8. Every transformer is to return an empty sequence, rather than fail, on partial or
  absent input. The allocation view fails for a selected experiment that has no
  \<open>variants\<close> member (the grid column reads the same member as \<open>data.variants?.length\<close>),
  and the matrix fails for a metrics entry that has no \<open>events_by_type\<close> member: at these
  inputs the transformers throw, where the claim promises an empty sequence.
\<close>

theorem transformers_throw_on_absent_collections:
  "isl (variantAllocationData (Some no_variants_experiment)) \<and>
   variantAllocationData (Some no_variants_experiment) \<noteq> Inr [] \<and>
   isl (variantEventsData (Some no_events_results)) \<and>
   variantEventsData (Some no_events_results) \<noteq> Inr []"
  by (simp add: variantAllocationData_def variantEventsData_def no_variants_experiment_def
        no_events_results_def)

subsection \<open>Results of the API operations\<close>

lemma fetchWithAuth_result:
  "fst (fetchWithAuth net endpoint options st) =
     (case net \<lparr>http_method = http_method options, headers = request_headers st options,
                 body = body options, url = API_BASE_URL st @ endpoint\<rparr> of
        Rejected e \<Rightarrow> Inl e
      | Response status b \<Rightarrow>
          (if \<not> ok status then Inl (http_failure status b)
           else (case b of Unparsable e \<Rightarrow> Inl e | Parsed j v \<Rightarrow> Inr v)))"
  by (simp add: fetchWithAuth_def fetch_def Let_def split: fetch_result.splits response_body.splits)

lemma fetchWithAuth_sent:
  "snd (fetchWithAuth net endpoint options st) =
     st\<lparr>sent := sent st @
        [\<lparr>http_method = http_method options, headers = request_headers st options,
          body = body options, url = API_BASE_URL st @ endpoint\<rparr>]\<rparr>"
  by (simp add: fetchWithAuth_def fetch_def Let_def split: fetch_result.splits response_body.splits)

subsection \<open>Loading results\<close>

lemma overlapping_first_fails:
  assumes "fst (getExperimentResults net (id_e attempted) (Some load_params) st) = Inl (Error m)"
  shows "selectedExperiment (fst (overlapping_loads net attempted other later (s, st))) =
           Some later \<and>
         results (fst (overlapping_loads net attempted other later (s, st))) = None \<and>
         error (fst (overlapping_loads net attempted other later (s, st))) = Some m \<and>
         loading (fst (overlapping_loads net attempted other later (s, st))) = False"
proof -
  obtain st1 where g: "getExperimentResults net (id_e attempted) (Some load_params) st =
      (Inl (Error m), st1)"
    using assms by (cases "getExperimentResults net (id_e attempted) (Some load_params) st") simp
  obtain outcome2 st2 where
    g2: "getExperimentResults other (id_e later) (Some load_params) st1 = (outcome2, st2)"
    by (cases "getExperimentResults other (id_e later) (Some load_params) st1")
  show ?thesis
    by (cases outcome2)
      (simp_all add: overlapping_loads_def loadExperimentResults_def g g2
         loadExperimentResults_settle_def loadExperimentResults_begin_def error_message_def)
qed

text \<open>
  C5, as the code has it. When the request of a load fails, the handler clears
  \<open>results\<close> to \<open>null\<close>, turns \<open>loading\<close> off and shows the message of the error that was
  thrown (\<open>Failed to load results\<close> when the thrown value is not an \<open>Error\<close>); when it
  succeeds, the new data replaces whatever snapshot was there. Neither touches the
  selected experiment, on whatever state the component has when the request settles.
  So after a load that nothing overlaps, the selected experiment is the one whose load
  was attempted; when another experiment was selected and loaded while the request was
  in flight, the failure leaves that later experiment selected, and clears its results.
\<close>

theorem load_results_outcome:
  "loadExperimentResults_settle (Inl (Error m)) t =
     t\<lparr>error := Some m, results := None, loading := False\<rparr> \<and>
   loadExperimentResults_settle (Inl NonError) t =
     t\<lparr>error := Some ''Failed to load results'', results := None, loading := False\<rparr> \<and>
   loadExperimentResults_settle (Inr data) t = t\<lparr>results := Some data, loading := False\<rparr> \<and>
   (getExperimentResults net (id_e attempted) (Some load_params) st = (outcome, st') \<longrightarrow>
      (outcome = Inl (Error m) \<longrightarrow>
         loadExperimentResults net attempted (s, st) =
           (s\<lparr>selectedExperiment := Some attempted, error := Some m, results := None,
              loading := False\<rparr>, st')) \<and>
      (outcome = Inl NonError \<longrightarrow>
         loadExperimentResults net attempted (s, st) =
           (s\<lparr>selectedExperiment := Some attempted,
              error := Some ''Failed to load results'', results := None,
              loading := False\<rparr>, st')) \<and>
      (outcome = Inr data \<longrightarrow>
         loadExperimentResults net attempted (s, st) =
           (s\<lparr>selectedExperiment := Some attempted, error := None, results := Some data,
              loading := False\<rparr>, st'))) \<and>
   (fst (getExperimentResults net (id_e attempted) (Some load_params) st) = Inl (Error m) \<longrightarrow>
      selectedExperiment (fst (overlapping_loads net attempted other later (s, st))) =
        Some later \<and>
      results (fst (overlapping_loads net attempted other later (s, st))) = None \<and>
      error (fst (overlapping_loads net attempted other later (s, st))) = Some m \<and>
      loading (fst (overlapping_loads net attempted other later (s, st))) = False)"
  using overlapping_first_fails [of net attempted st m other later s]
  by (simp add: loadExperimentResults_def loadExperimentResults_settle_def
        loadExperimentResults_begin_def error_message_def)

theorem load_results_outcome_witness:
  "fst (loadExperimentResults offline_net example_experiment
          (initial_dashboard\<lparr>results := Some example_results\<rparr>, example_api)) =
     initial_dashboard\<lparr>selectedExperiment := Some example_experiment,
                        error := Some ''Failed to fetch'', results := None\<rparr> \<and>
   fst (loadExperimentResults (\<lambda>req. Rejected NonError) example_experiment
          (initial_dashboard\<lparr>results := Some example_results\<rparr>, example_api)) =
     initial_dashboard\<lparr>selectedExperiment := Some example_experiment,
                        error := Some ''Failed to load results'', results := None\<rparr> \<and>
   fst (loadExperimentResults results_net example_experiment
          (initial_dashboard\<lparr>results := Some empty_results\<rparr>, example_api)) =
     initial_dashboard\<lparr>selectedExperiment := Some example_experiment,
                        results := Some example_results\<rparr> \<and>
   selectedExperiment (fst (overlapping_loads offline_net example_experiment results_net
      other_experiment (initial_dashboard, example_api))) = Some other_experiment \<and>
   results (fst (overlapping_loads offline_net example_experiment results_net
      other_experiment (initial_dashboard, example_api))) = None \<and>
   error (fst (overlapping_loads offline_net example_experiment results_net
      other_experiment (initial_dashboard, example_api))) = Some ''Failed to fetch''"
proof -
  have f: "fst (getExperimentResults offline_net (id_e example_experiment) (Some load_params)
                  example_api) = Inl (Error ''Failed to fetch'')"
    by (simp add: getExperimentResults_def fetchWithAuth_result offline_net_def)
  have n: "fst (getExperimentResults (\<lambda>req. Rejected NonError) (id_e example_experiment)
                  (Some load_params) example_api) = Inl NonError"
    by (simp add: getExperimentResults_def fetchWithAuth_result)
  have g: "fst (getExperimentResults results_net (id_e example_experiment) (Some load_params)
                  example_api) = Inr example_results"
    by (simp add: getExperimentResults_def fetchWithAuth_result results_net_def ok_def)
  note a = load_results_outcome [where net = offline_net and attempted = example_experiment
      and st = example_api and m = "''Failed to fetch''"
      and outcome = "Inl (Error ''Failed to fetch'')"
      and st' = "snd (getExperimentResults offline_net (id_e example_experiment)
                        (Some load_params) example_api)"
      and s = "initial_dashboard\<lparr>results := Some example_results\<rparr>"
      and t = initial_dashboard and data = example_results
      and other = results_net and later = other_experiment]
  note b = load_results_outcome [where net = "\<lambda>req. Rejected NonError"
      and attempted = example_experiment and st = example_api and m = "[]"
      and outcome = "Inl NonError"
      and st' = "snd (getExperimentResults (\<lambda>req. Rejected NonError)
                        (id_e example_experiment) (Some load_params) example_api)"
      and s = "initial_dashboard\<lparr>results := Some example_results\<rparr>"
      and t = initial_dashboard and data = example_results
      and other = results_net and later = other_experiment]
  note c = load_results_outcome [where net = results_net and attempted = example_experiment
      and st = example_api and m = "[]" and outcome = "Inr example_results"
      and st' = "snd (getExperimentResults results_net (id_e example_experiment)
                        (Some load_params) example_api)"
      and s = "initial_dashboard\<lparr>results := Some empty_results\<rparr>"
      and t = initial_dashboard and data = example_results
      and other = results_net and later = other_experiment]
  note d = load_results_outcome [where net = offline_net and attempted = example_experiment
      and st = example_api and m = "''Failed to fetch''"
      and outcome = "Inl (Error ''Failed to fetch'')"
      and st' = "snd (getExperimentResults offline_net (id_e example_experiment)
                        (Some load_params) example_api)"
      and s = initial_dashboard
      and t = initial_dashboard and data = example_results
      and other = results_net and later = other_experiment]
  have pa: "getExperimentResults offline_net (id_e example_experiment) (Some load_params)
              example_api =
            (Inl (Error ''Failed to fetch''),
             snd (getExperimentResults offline_net (id_e example_experiment)
                    (Some load_params) example_api))"
    using f by (simp add: prod_eq_iff)
  have pb: "getExperimentResults (\<lambda>req. Rejected NonError) (id_e example_experiment)
              (Some load_params) example_api =
            (Inl NonError,
             snd (getExperimentResults (\<lambda>req. Rejected NonError) (id_e example_experiment)
                    (Some load_params) example_api))"
    using n by (simp add: prod_eq_iff)
  have pc: "getExperimentResults results_net (id_e example_experiment) (Some load_params)
              example_api =
            (Inr example_results,
             snd (getExperimentResults results_net (id_e example_experiment)
                    (Some load_params) example_api))"
    using g by (simp add: prod_eq_iff)
  have 1: "fst (loadExperimentResults offline_net example_experiment
          (initial_dashboard\<lparr>results := Some example_results\<rparr>, example_api)) =
     initial_dashboard\<lparr>selectedExperiment := Some example_experiment,
                        error := Some ''Failed to fetch'', results := None\<rparr>"
    using a pa by (simp add: initial_dashboard_def)
  have 2: "fst (loadExperimentResults (\<lambda>req. Rejected NonError) example_experiment
          (initial_dashboard\<lparr>results := Some example_results\<rparr>, example_api)) =
     initial_dashboard\<lparr>selectedExperiment := Some example_experiment,
                        error := Some ''Failed to load results'', results := None\<rparr>"
    using b pb by (simp add: initial_dashboard_def)
  have 3: "fst (loadExperimentResults results_net example_experiment
          (initial_dashboard\<lparr>results := Some empty_results\<rparr>, example_api)) =
     initial_dashboard\<lparr>selectedExperiment := Some example_experiment,
                        results := Some example_results\<rparr>"
    using c pc by (simp add: initial_dashboard_def)
  have 4: "selectedExperiment (fst (overlapping_loads offline_net example_experiment results_net
      other_experiment (initial_dashboard, example_api))) = Some other_experiment \<and>
   results (fst (overlapping_loads offline_net example_experiment results_net
      other_experiment (initial_dashboard, example_api))) = None \<and>
   error (fst (overlapping_loads offline_net example_experiment results_net
      other_experiment (initial_dashboard, example_api))) = Some ''Failed to fetch''"
    using d f by simp
  from 1 2 3 4 show ?thesis by simp
qed

text \<open>
  The claim as the specification words it: after every load that fails, the selected
  experiment is the one whose load was attempted. The load of the first experiment
  fails after a second experiment was selected and loaded: the second one stays
  selected, with its results cleared.
\<close>

theorem load_results_overlap_counterexample:
  "selectedExperiment (fst (overlapping_loads offline_net example_experiment results_net
      other_experiment (initial_dashboard, example_api))) = Some other_experiment \<and>
   other_experiment \<noteq> example_experiment \<and>
   results (fst (overlapping_loads offline_net example_experiment results_net
      other_experiment (initial_dashboard, example_api))) = None \<and>
   fst (getExperimentResults offline_net (id_e example_experiment) (Some load_params)
          example_api) = Inl (Error ''Failed to fetch'')"
proof -
  have f: "fst (getExperimentResults offline_net (id_e example_experiment) (Some load_params)
                  example_api) = Inl (Error ''Failed to fetch'')"
    by (simp add: getExperimentResults_def fetchWithAuth_result offline_net_def)
  have "id_e other_experiment \<noteq> id_e example_experiment"
    by (simp add: other_experiment_def example_experiment_def)
  then have n: "other_experiment \<noteq> example_experiment"
    by auto
  from overlapping_first_fails [OF f, of results_net other_experiment initial_dashboard] f n
  show ?thesis by simp
qed

subsection \<open>The health probe\<close>

lemma health_indicator_outcomes:
  "apiStatus (fst (useEffect_checkHealth net (s, st))) =
     (case net \<lparr>http_method = None, headers = [], body = None,
                 url = API_BASE_URL st @ ''/health''\<rparr> of
        Rejected e \<Rightarrow> Offline
      | Response status (Unparsable e) \<Rightarrow> Offline
      | Response status (Parsed j v) \<Rightarrow> Online)"
  by (simp add: useEffect_checkHealth_def checkHealth_def fetch_def
        split: fetch_result.splits response_body.splits)

text \<open>
  C9. The indicator is to become \<open>offline\<close> when the probe fails in any way. A non-2xx
  status is a failure of every other operation (\<open>fetchWithAuth\<close> tests \<open>response.ok\<close>),
  but \<open>checkHealth\<close> never looks at the status: a \<open>/health\<close> that answers 503 with a
  JSON body makes the indicator \<open>online\<close>.
\<close>

theorem health_probe_ignores_status:
  "apiStatus (fst (useEffect_checkHealth unhealthy_net (initial_dashboard, example_api))) = Online"
  by (simp add: health_indicator_outcomes unhealthy_net_def)

subsection \<open>HTTP failures\<close>

lemma show_nat_examples:
  "show_nat 500 = ''500''" "show_nat 404 = ''404''" "show_nat 401 = ''401''"
  by (simp_all add: show_nat.simps digit_def)

text \<open>
  C1, as the code has it. For every response whose status is not in 200 to 299,
  \<open>fetchWithAuth\<close> fails
  \<^item> with \<open>Unknown error\<close> when the body is absent or is not JSON;
  \<^item> with the server's \<open>detail\<close> when the body is a JSON object whose \<open>detail\<close> is a
    non-empty string;
  \<^item> with \<open>HTTP <status>\<close> when the body is a JSON document other than \<open>null\<close> whose
    \<open>detail\<close> is missing or falsy (\<open>null\<close>, \<open>false\<close>, \<open>0\<close> or the empty string);
  \<^item> with the error that reading \<open>detail\<close> of \<open>null\<close> throws, and not with
    \<open>HTTP <status>\<close>, when the body is the JSON document \<open>null\<close>.
\<close>

theorem http_failure_message:
  assumes "\<not> ok status"
  shows "fst (fetchWithAuth (\<lambda>req. Response status (Unparsable e) :: 'a fetch_result)
                endpoint options st) = Inl (Error ''Unknown error'') \<and>
         (map_of ps ''detail'' = Some (JStr d) \<and> d \<noteq> [] \<longrightarrow>
            fst (fetchWithAuth (\<lambda>req. Response status (Parsed (JObj ps) (v :: 'a)))
                   endpoint options st) =
              Inl (Error d)) \<and>
         (j \<noteq> JNull \<and>
          (\<forall>qs. j = JObj qs \<longrightarrow>
             map_of qs ''detail'' \<in>
               {None, Some JNull, Some (JBool False), Some (JNum 0), Some (JStr [])}) \<longrightarrow>
            fst (fetchWithAuth (\<lambda>req. Response status (Parsed j v)) endpoint options st) =
              Inl (Error (''HTTP '' @ show_nat status))) \<and>
         (\<exists>m. fst (fetchWithAuth (\<lambda>req. Response status (Parsed JNull v)) endpoint options st) =
                 Inl (Error m) \<and>
               m \<noteq> ''HTTP '' @ show_nat status)"
proof -
  have "fst (fetchWithAuth (\<lambda>req. Response status (Parsed j v)) endpoint options st) =
          Inl (Error (''HTTP '' @ show_nat status))"
    if "j \<noteq> JNull"
      and "\<forall>qs. j = JObj qs \<longrightarrow>
             map_of qs ''detail'' \<in>
               {None, Some JNull, Some (JBool False), Some (JNum 0), Some (JStr [])}"
    using that assms
    by (cases j)
      (auto simp: fetchWithAuth_result http_failure_def js_get_def js_or_def new_Error_def)
  then show ?thesis
    using assms
    by (auto simp: fetchWithAuth_result http_failure_def js_get_def js_or_def new_Error_def)
qed

theorem http_failure_message_witness:
  "fst (fetchWithAuth invalid_token_net ''/experiments'' no_options example_api) =
     Inl (Error ''Invalid token'') \<and>
   fst (fetchWithAuth (failing_net :: request \<Rightarrow> unit fetch_result) ''/experiments''
          no_options example_api) = Inl (Error ''Unknown error'') \<and>
   fst (fetchWithAuth no_detail_net ''/experiments/9'' no_options example_api) =
     Inl (Error ''HTTP 404'') \<and>
   fst (fetchWithAuth null_body_net ''/experiments'' no_options example_api) \<noteq>
     Inl (Error ''HTTP 500'')"
proof -
  have n: "\<not> ok 401" "\<not> ok 500" "\<not> ok 404"
    by (simp_all add: ok_def)
  have a: "fst (fetchWithAuth invalid_token_net ''/experiments'' no_options example_api) =
             Inl (Error ''Invalid token'')"
    using http_failure_message [OF n(1), where ps = "[(''detail'', JStr ''Invalid token''),
      (''status_code'', JNum 401)]" and d = "''Invalid token''" and v = "()"
      and endpoint = "''/experiments''" and options = no_options and st = example_api
      and e = NonError and j = JNull]
    by (simp add: invalid_token_net_def)
  have b: "fst (fetchWithAuth (failing_net :: request \<Rightarrow> unit fetch_result) ''/experiments''
                  no_options example_api) = Inl (Error ''Unknown error'')"
    using http_failure_message [OF n(2), where e = "Error ''Unexpected end of JSON input''"
      and v = "()" and endpoint = "''/experiments''" and options = no_options
      and st = example_api and ps = "[]" and d = "[]" and j = JNull]
    by (simp add: failing_net_def)
  have c: "fst (fetchWithAuth no_detail_net ''/experiments/9'' no_options example_api) =
             Inl (Error ''HTTP 404'')"
    using http_failure_message [OF n(3), where j = "JObj []" and v = "()"
      and endpoint = "''/experiments/9''" and options = no_options and st = example_api
      and e = NonError and ps = "[]" and d = "[]"]
    by (simp add: no_detail_net_def show_nat_examples)
  have d: "fst (fetchWithAuth null_body_net ''/experiments'' no_options example_api) \<noteq>
             Inl (Error ''HTTP 500'')"
    using http_failure_message [OF n(2), where j = JNull and v = "()"
      and endpoint = "''/experiments''" and options = no_options and st = example_api
      and e = NonError and ps = "[]" and d = "[]"]
    by (auto simp: null_body_net_def show_nat_examples)
  from a b c d show ?thesis by simp
qed

text \<open>
  The claim as the specification words it promises \<open>HTTP 500\<close> for a status 500
  without a body; the code answers \<open>Unknown error\<close>.
\<close>

theorem http_failure_no_body_counterexample:
  "fst (fetchWithAuth (failing_net :: request \<Rightarrow> unit fetch_result) ''/experiments''
          no_options example_api) = Inl (Error ''Unknown error'') \<and>
   fst (fetchWithAuth (failing_net :: request \<Rightarrow> unit fetch_result) ''/experiments''
          no_options example_api) \<noteq> Inl (Error ''HTTP 500'')"
  by (simp add: fetchWithAuth_result failing_net_def ok_def http_failure_def js_get_def
        js_or_def new_Error_def)

subsection \<open>Login\<close>

lemma trim_Nil: "trim [] = []"
  by (simp add: trim_def)

lemma trim_examples: "trim ''   '' = []" "trim ''secret'' = ''secret''"
  by (simp_all add: trim_def is_whitespace_def)

lemma experiments_url: "with_query ''/experiments'' (getExperiments_searchParams None) = ''/experiments''"
  by (simp add: with_query_def getExperiments_searchParams_def sp_toString_def)

lemma map_of_obj_set: "map_of (obj_set h k v) k = Some v"
  by (induction h k v rule: obj_set.induct) simp_all

lemma authorization_header:
  "authToken st = Some t \<Longrightarrow> t \<noteq> [] \<Longrightarrow>
     map_of (request_headers st options) ''Authorization'' = Some (''Bearer '' @ t)"
  by (simp add: request_headers_def map_of_obj_set)

lemma handleLogin_valid:
  assumes "trim (token s) \<noteq> []"
  shows "handleLogin net (s, st) =
           (case fst (getExperiments net None (setAuthToken (token s) st)) of
              Inr response \<Rightarrow>
                s\<lparr>error := None,
                  experiments := (case experiments_l response of Some es \<Rightarrow> es | None \<Rightarrow> []),
                  isAuthenticated := True, loading := False\<rparr>
            | Inl err \<Rightarrow>
                s\<lparr>error := Some (error_message err ''Authentication failed''),
                  isAuthenticated := False, loading := False\<rparr>,
            st\<lparr>authToken := Some (token s),
               sent := sent st @
                 [\<lparr>http_method = None,
                   headers = request_headers (setAuthToken (token s) st) no_options,
                   body = None, url = API_BASE_URL st @ ''/experiments''\<rparr>]\<rparr>)"
proof -
  obtain r st2 where g: "getExperiments net None (setAuthToken (token s) st) = (r, st2)"
    by (cases "getExperiments net None (setAuthToken (token s) st)")
  have "st2 = snd (getExperiments net None (setAuthToken (token s) st))"
    by (simp add: g)
  then have st2: "st2 = st\<lparr>authToken := Some (token s),
               sent := sent st @
                 [\<lparr>http_method = None,
                   headers = request_headers (setAuthToken (token s) st) no_options,
                   body = None, url = API_BASE_URL st @ ''/experiments''\<rparr>]\<rparr>"
    by (simp add: getExperiments_def fetchWithAuth_sent experiments_url setAuthToken_def
          no_options_def)
  show ?thesis
    using assms g st2 by (cases r) (simp_all add: handleLogin_def)
qed

lemma trim_empty_iff:
  "trim s = [] \<longleftrightarrow> (\<forall>c \<in> set s. of_char c \<in> {9, 10, 11, 12, 13, 32, 160 :: nat})"
proof -
  let ?d = "dropWhile is_whitespace s"
  have "trim s = [] \<longleftrightarrow> (\<forall>c \<in> set s. is_whitespace c)"
  proof
    assume t: "trim s = []"
    show "\<forall>c \<in> set s. is_whitespace c"
    proof (rule ccontr)
      assume "\<not> (\<forall>c \<in> set s. is_whitespace c)"
      then have n: "?d \<noteq> []"
        by (simp add: dropWhile_eq_Nil_conv)
      then have "\<not> is_whitespace (hd ?d)"
        by (rule hd_dropWhile)
      moreover from n have "hd ?d \<in> set (rev ?d)"
        by simp
      ultimately have "\<not> (\<forall>x \<in> set (rev ?d). is_whitespace x)"
        by blast
      then have "dropWhile is_whitespace (rev ?d) \<noteq> []"
        using dropWhile_eq_Nil_conv [of is_whitespace "rev ?d"] by blast
      with t show False
        by (simp add: trim_def)
    qed
  next
    assume "\<forall>c \<in> set s. is_whitespace c"
    then show "trim s = []"
      by (auto simp: trim_def dest: set_dropWhileD)
  qed
  then show ?thesis
    by (simp add: is_whitespace_def)
qed

lemma handleLogin_by_trim:
  "(trim (token s) = [] \<longrightarrow>
      handleLogin net (s, st) = (s\<lparr>error := Some ''Please enter an API token''\<rparr>, st)) \<and>
   (trim (token s) \<noteq> [] \<longrightarrow>
      authToken (snd (handleLogin net (s, st))) = Some (token s) \<and>
      (\<exists>req. sent (snd (handleLogin net (s, st))) = sent st @ [req] \<and>
         url req = API_BASE_URL st @ ''/experiments'')) \<and>
   (sent (snd (handleLogin net (s, st))) \<noteq> sent st) = (trim (token s) \<noteq> [])"
proof (cases "trim (token s) = []")
  case True
  then show ?thesis by (simp add: handleLogin_def)
next
  case False
  then show ?thesis by (simp add: handleLogin_valid)
qed

text \<open>
  C4, as the code has it. \<open>handleLogin\<close> tests \<open>token.trim()\<close>: it calls the network
  if and only if the credential has a character that is not white space (white space
  being TAB, LF, VT, FF, CR, SPACE and the no-break space). A credential that is empty
  or all white space only sets the validation message: the module state, and with it
  the log of requests, is unchanged. Any other credential is stored as it was typed,
  and exactly one request, to \<open>/experiments\<close>, is sent.
\<close>

theorem login_network_call:
  "((\<forall>c \<in> set (token s). of_char c \<in> {9, 10, 11, 12, 13, 32, 160 :: nat}) \<longrightarrow>
      handleLogin net (s, st) = (s\<lparr>error := Some ''Please enter an API token''\<rparr>, st)) \<and>
   (\<not> (\<forall>c \<in> set (token s). of_char c \<in> {9, 10, 11, 12, 13, 32, 160 :: nat}) \<longrightarrow>
      authToken (snd (handleLogin net (s, st))) = Some (token s) \<and>
      (\<exists>req. sent (snd (handleLogin net (s, st))) = sent st @ [req] \<and>
         url req = API_BASE_URL st @ ''/experiments'')) \<and>
   (sent (snd (handleLogin net (s, st))) \<noteq> sent st) =
     (\<not> (\<forall>c \<in> set (token s). of_char c \<in> {9, 10, 11, 12, 13, 32, 160 :: nat}))"
  using handleLogin_by_trim [of s net st] unfolding trim_empty_iff .

theorem login_network_call_witness:
  "handleLogin failing_net (initial_dashboard, example_api) =
     (initial_dashboard\<lparr>error := Some ''Please enter an API token''\<rparr>, example_api) \<and>
   handleLogin failing_net (nbsp_login, example_api) =
     (nbsp_login\<lparr>error := Some ''Please enter an API token''\<rparr>, example_api) \<and>
   authToken (snd (handleLogin failing_net (secret_login, example_api))) = Some ''secret'' \<and>
   (\<exists>req. sent (snd (handleLogin failing_net (secret_login, example_api))) = [req] \<and>
      url req = ''http://localhost:8000/experiments'')"
proof -
  have e: "\<forall>c \<in> set (token initial_dashboard). of_char c \<in> {9, 10, 11, 12, 13, 32, 160 :: nat}"
    by (simp add: initial_dashboard_def)
  have w: "\<forall>c \<in> set (token nbsp_login). of_char c \<in> {9, 10, 11, 12, 13, 32, 160 :: nat}"
    by (simp add: nbsp_login_def)
  have v: "\<not> (\<forall>c \<in> set (token secret_login). of_char c \<in> {9, 10, 11, 12, 13, 32, 160 :: nat})"
    by (simp add: secret_login_def)
  from login_network_call [of initial_dashboard failing_net example_api] e
  have 1: "handleLogin failing_net (initial_dashboard, example_api) =
     (initial_dashboard\<lparr>error := Some ''Please enter an API token''\<rparr>, example_api)"
    by (rule conjunct1 [THEN mp])
  from login_network_call [of nbsp_login failing_net example_api] w
  have 2: "handleLogin failing_net (nbsp_login, example_api) =
     (nbsp_login\<lparr>error := Some ''Please enter an API token''\<rparr>, example_api)"
    by (rule conjunct1 [THEN mp])
  from login_network_call [of secret_login failing_net example_api] v
  have 3: "authToken (snd (handleLogin failing_net (secret_login, example_api))) =
      Some (token secret_login) \<and>
    (\<exists>req. sent (snd (handleLogin failing_net (secret_login, example_api))) =
       sent example_api @ [req] \<and>
       url req = API_BASE_URL example_api @ ''/experiments'')"
    by (rule conjunct2 [THEN conjunct1, THEN mp])
  from 1 2 3 show ?thesis
    by (simp add: secret_login_def example_api_def)
qed

text \<open>
  The claim as the specification words it: a call is made whenever the credential is a
  non-empty string. Three spaces are a non-empty string, and no call is made.
\<close>

theorem login_blank_credential_counterexample:
  "token blank_login \<noteq> [] \<and>
   sent (snd (handleLogin failing_net (blank_login, example_api))) = sent example_api"
  by (simp add: handleLogin_def blank_login_def trim_examples)

text \<open>
  C10. When the credential passes the local validation and the \<open>getExperiments\<close> call that
  validates it fails, the request of that call already carries the submitted token
  (it was stored before the call), the dashboard stays unauthenticated, \<open>getAuthToken\<close>
  still returns the token, and every later request built by \<open>fetchWithAuth\<close> carries
  \<open>Authorization: Bearer <token>\<close>, whatever headers the caller passes.
\<close>

theorem failed_login_keeps_token:
  assumes "trim (token s) \<noteq> []"
    and "fst (getExperiments net None (setAuthToken (token s) st)) = Inl err"
    and "handleLogin net (s, st) = (s', st')"
  shows "isAuthenticated s' = False \<and>
         map_of (headers (last (sent st'))) ''Authorization'' = Some (''Bearer '' @ token s) \<and>
         getAuthToken st' = Some (token s) \<and>
         map_of (headers (last (sent (snd (fetchWithAuth net' endpoint options st')))))
           ''Authorization'' = Some (''Bearer '' @ token s)"
proof -
  from assms(1) have t: "token s \<noteq> []"
    using trim_Nil by auto
  from assms have st': "st' = st\<lparr>authToken := Some (token s),
               sent := sent st @
                 [\<lparr>http_method = None,
                   headers = request_headers (setAuthToken (token s) st) no_options,
                   body = None, url = API_BASE_URL st @ ''/experiments''\<rparr>]\<rparr>"
    and s': "s' = s\<lparr>error := Some (error_message err ''Authentication failed''),
                  isAuthenticated := False, loading := False\<rparr>"
    by (simp_all add: handleLogin_valid)
  have a: "authToken st' = Some (token s)"
    by (simp add: st')
  show ?thesis
    using t s' a
    by (simp add: fetchWithAuth_sent authorization_header getAuthToken_def)
      (simp add: st' authorization_header setAuthToken_def)
qed

theorem failed_login_keeps_token_witness:
  "isAuthenticated (fst (handleLogin failing_net (secret_login, example_api))) = False \<and>
   map_of (headers (last (sent (snd (handleLogin failing_net (secret_login, example_api))))))
     ''Authorization'' = Some ''Bearer secret'' \<and>
   getAuthToken (snd (handleLogin failing_net (secret_login, example_api))) = Some ''secret'' \<and>
   map_of (headers (last (sent (snd (fetchWithAuth results_net ''/experiments/7/results''
       no_options (snd (handleLogin failing_net (secret_login, example_api))))))))
     ''Authorization'' = Some ''Bearer secret''"
proof -
  have v: "trim (token secret_login) \<noteq> []"
    by (simp add: secret_login_def trim_examples)
  have f: "fst (getExperiments failing_net None (setAuthToken (token secret_login) example_api)) =
             Inl (Error ''Unknown error'')"
    by (simp add: getExperiments_def fetchWithAuth_result failing_net_def ok_def
          http_failure_def js_get_def js_or_def new_Error_def)
  from failed_login_keeps_token [OF v f prod.collapse [symmetric],
      where net' = results_net and endpoint = "''/experiments/7/results''"
        and options = no_options]
  show ?thesis
    by (simp add: secret_login_def)
qed

subsection \<open>Query strings\<close>

lemma getExperiments_entries:
  "getExperiments_searchParams (Some p) =
     (case status_p p of Some s \<Rightarrow> (if s \<noteq> [] then [(''status'', s)] else []) | None \<Rightarrow> []) @
     (case limit_p p of Some n \<Rightarrow> (if n \<noteq> 0 then [(''limit'', show_int n)] else []) | None \<Rightarrow> []) @
     (case offset_p p of Some n \<Rightarrow> (if n \<noteq> 0 then [(''offset'', show_int n)] else []) | None \<Rightarrow> [])"
  by (simp add: getExperiments_searchParams_def set_if_string_def set_if_number_def
        truthy_string_def truthy_number_def split: option.splits)

lemma getExperimentResults_entries:
  "getExperimentResults_searchParams (Some q) =
     (case start_date q of Some s \<Rightarrow> (if s \<noteq> [] then [(''start_date'', s)] else []) | None \<Rightarrow> []) @
     (case end_date q of Some s \<Rightarrow> (if s \<noteq> [] then [(''end_date'', s)] else []) | None \<Rightarrow> []) @
     (case event_types q of Some s \<Rightarrow> (if s \<noteq> [] then [(''event_types'', s)] else [])
      | None \<Rightarrow> []) @
     (case format q of Some f \<Rightarrow> [(''format'', format_string f)] | None \<Rightarrow> []) @
     (if include_time_series q = Some True then [(''include_time_series'', ''true'')] else []) @
     (case time_series_granularity q of
        Some g \<Rightarrow> [(''time_series_granularity'', granularity_string g)] | None \<Rightarrow> [])"
proof -
  have f: "format_string f \<noteq> []" for f
    by (cases f) simp_all
  have g: "granularity_string g \<noteq> []" for g
    by (cases g) simp_all
  show ?thesis
    by (simp add: getExperimentResults_searchParams_def set_if_string_def truthy_string_def f g
          split: option.splits)
qed


lemma serialisation_examples:
  "sp_toString [(''status'', ''running''), (''limit'', ''20'')] = ''status=running&limit=20''"
  "sp_toString [(''format'', ''full''), (''include_time_series'', ''true''),
      (''time_series_granularity'', ''day'')] =
     ''format=full&include_time_series=true&time_series_granularity=day''"
  "show_int 20 = ''20''" "show_int 7 = ''7''"
  by (simp_all add: sp_toString_def urlencode_def urlencode_char_def show_int_def
        show_nat.simps digit_def)

text \<open>
  C6, as the code has it. The guards are truthiness tests. The entries of the query are,
  in this order, one for each string parameter that is present and non-empty, one for
  each number (\<open>limit\<close>, \<open>offset\<close>) that is present and not zero, one for \<open>format\<close> and
  \<open>time_series_granularity\<close> when present, and \<open>include_time_series=true\<close> exactly when
  the flag is \<open>true\<close>; an absent parameter, or an absent parameter record, adds nothing.
  The URL requested is the path followed by \<open>?\<close> and the serialised entries, or the
  path alone when there is none.
\<close>

theorem query_parameters:
  "getExperiments_searchParams None = [] \<and>
   getExperiments_searchParams (Some p) =
     (case status_p p of Some s \<Rightarrow> (if s \<noteq> [] then [(''status'', s)] else []) | None \<Rightarrow> []) @
     (case limit_p p of Some n \<Rightarrow> (if n \<noteq> 0 then [(''limit'', show_int n)] else []) | None \<Rightarrow> []) @
     (case offset_p p of Some n \<Rightarrow> (if n \<noteq> 0 then [(''offset'', show_int n)] else [])
      | None \<Rightarrow> []) \<and>
   getExperimentResults_searchParams None = [] \<and>
   getExperimentResults_searchParams (Some q) =
     (case start_date q of Some s \<Rightarrow> (if s \<noteq> [] then [(''start_date'', s)] else []) | None \<Rightarrow> []) @
     (case end_date q of Some s \<Rightarrow> (if s \<noteq> [] then [(''end_date'', s)] else []) | None \<Rightarrow> []) @
     (case event_types q of Some s \<Rightarrow> (if s \<noteq> [] then [(''event_types'', s)] else [])
      | None \<Rightarrow> []) @
     (case format q of Some f \<Rightarrow> [(''format'', format_string f)] | None \<Rightarrow> []) @
     (if include_time_series q = Some True then [(''include_time_series'', ''true'')] else []) @
     (case time_series_granularity q of
        Some g \<Rightarrow> [(''time_series_granularity'', granularity_string g)] | None \<Rightarrow> []) \<and>
   url (last (sent (snd (getExperiments net params st)))) =
     API_BASE_URL st @
       (let query = sp_toString (getExperiments_searchParams params)
        in ''/experiments'' @ (if query \<noteq> [] then ''?'' @ query else [])) \<and>
   url (last (sent (snd (getExperimentResults net' i params' st)))) =
     API_BASE_URL st @
       (let query = sp_toString (getExperimentResults_searchParams params')
        in ''/experiments/'' @ show_int i @ ''/results'' @
           (if query \<noteq> [] then ''?'' @ query else []))"
  by (simp add: getExperiments_entries getExperimentResults_entries)
    (simp add: getExperiments_searchParams_def getExperimentResults_searchParams_def
       getExperiments_def getExperimentResults_def fetchWithAuth_sent with_query_def Let_def)

theorem query_parameters_witness:
  "url (last (sent (snd (getExperiments failing_net (Some page_params) example_api)))) =
     ''http://localhost:8000/experiments?status=running&limit=20'' \<and>
   url (last (sent (snd (getExperimentResults results_net 7 (Some load_params) example_api)))) =
     ''http://localhost:8000/experiments/7/results?format=full&include_time_series=true&time_series_granularity=day''"
  using query_parameters [where p = page_params and q = load_params and net = failing_net
      and params = "Some page_params" and st = example_api and net' = results_net and i = 7
      and params' = "Some load_params"]
  by (simp add: page_params_def load_params_def example_api_def serialisation_examples)

text \<open>
  The claim as the specification words it: a key is in the query whenever its parameter
  is present. A \<open>limit\<close> of \<open>0\<close> is present and leaves no key.
\<close>

theorem query_zero_limit_counterexample:
  "limit_p zero_limit_params = Some 0 \<and>
   getExperiments_searchParams (Some zero_limit_params) = [] \<and>
   url (last (sent (snd (getExperiments failing_net (Some zero_limit_params) example_api)))) =
     ''http://localhost:8000/experiments''"
  by (simp add: zero_limit_params_def getExperiments_entries getExperiments_def
        fetchWithAuth_sent with_query_def sp_toString_def example_api_def)

subsection \<open>The variant by event type matrix\<close>

lemma set_first_seen: "set (first_seen xs) = set xs"
  by (induction xs rule: first_seen.induct) auto

lemma distinct_first_seen: "distinct (first_seen xs)"
  by (induction xs rule: first_seen.induct) (auto simp: set_first_seen)

lemma filter_absorb: "\<not> P x \<Longrightarrow> filter P (filter (\<lambda>y. y \<noteq> x) xs) = filter P xs"
  by (induction xs) auto

lemma first_seen_filter: "first_seen (filter P xs) = filter P (first_seen xs)"
proof (induction xs rule: first_seen.induct)
  case 1
  show ?case by simp
next
  case (2 x xs)
  have c: "filter (\<lambda>y. y \<noteq> x) (filter P xs) = filter P (filter (\<lambda>y. y \<noteq> x) xs)"
    by (simp add: conj_commute)
  show ?case
  proof (cases "P x")
    case True
    with 2 c show ?thesis by simp
  next
    case False
    have "first_seen (filter P xs) = first_seen (filter P (filter (\<lambda>y. y \<noteq> x) xs))"
      by (rule arg_cong [where f = first_seen]) (rule filter_absorb [of P x xs, OF False, symmetric])
    also have "\<dots> = filter P (first_seen (filter (\<lambda>y. y \<noteq> x) xs))"
      by (rule 2)
    finally show ?thesis using False by simp
  qed
qed

lemma first_seen_append:
  "first_seen (xs @ ys) = first_seen xs @ first_seen (filter (\<lambda>y. y \<notin> set xs) ys)"
proof (induction xs arbitrary: ys rule: first_seen.induct)
  case 1
  show ?case by simp
next
  case (2 x xs)
  have "filter (\<lambda>y. y \<notin> set (filter (\<lambda>y. y \<noteq> x) xs)) (filter (\<lambda>y. y \<noteq> x) ys) =
        filter (\<lambda>y. y \<notin> set (x # xs)) ys"
    by (induction ys) auto
  with 2 [of "filter (\<lambda>y. y \<noteq> x) ys"] show ?case by simp
qed

lemma foldl_set_add:
  "foldl set_add acc xs = acc @ first_seen (filter (\<lambda>x. x \<notin> set acc) xs)"
proof (induction xs arbitrary: acc)
  case Nil
  show ?case by simp
next
  case (Cons x xs)
  have "filter (\<lambda>y. y \<noteq> x) (filter (\<lambda>y. y \<notin> set acc) xs) =
        filter (\<lambda>y. y \<notin> set (acc @ [x])) xs"
    by (induction xs) auto
  with Cons show ?case by (simp add: set_add_def)
qed

lemma collect_event_types_union:
  assumes "\<forall>vm \<in> set vms. events_by_type vm \<noteq> None"
  shows "collect_event_types acc vms =
           Inr (acc @ first_seen (filter (\<lambda>x. x \<notin> set acc) (concat (map event_keys vms))))"
  using assms
proof (induction vms arbitrary: acc)
  case Nil
  show ?case by simp
next
  case (Cons vm vms)
  then obtain m where m: "events_by_type vm = Some m" by auto
  then have k: "event_keys vm = map fst m"
    by (simp add: event_keys_def)
  let ?ks = "map fst m"
  let ?rest = "concat (map event_keys vms)"
  let ?acc' = "acc @ first_seen (filter (\<lambda>x. x \<notin> set acc) ?ks)"
  have "filter (\<lambda>x. x \<notin> set ?acc') ?rest =
        filter (\<lambda>y. y \<notin> set (filter (\<lambda>x. x \<notin> set acc) ?ks)) (filter (\<lambda>x. x \<notin> set acc) ?rest)"
    by (induction ?rest) (auto simp: set_first_seen)
  with Cons m k show ?case
    by (simp add: foldl_set_add first_seen_append)
qed

lemma cell_of_count:
  "events_by_type vm = Some m \<Longrightarrow> t \<notin> set Object_prototype_names \<Longrightarrow>
     cell_of m t = CNum (event_count vm t)"
  by (simp add: cell_of_def event_count_def split: option.splits)

lemma fill_row_result:
  assumes "\<forall>vm \<in> set vms. events_by_type vm \<noteq> None"
    and "\<forall>vm \<in> set vms. variant_name vm \<noteq> ''__proto__''"
    and "t \<notin> set Object_prototype_names"
  shows "fill_row r t vms =
           Inr (r ++ map_of (rev (map (\<lambda>vm. (variant_name vm, CNum (event_count vm t))) vms)))"
  using assms(1,2)
proof (induction vms arbitrary: r)
  case Nil
  show ?case by simp
next
  case (Cons vm vms)
  then obtain m where m: "events_by_type vm = Some m" by auto
  from Cons m assms(3) show ?case
    by (simp add: row_set_def cell_of_count map_add_upd_left)
qed


lemma sequence_map:
  "(\<And>x. x \<in> set xs \<Longrightarrow> f x = Inr (g x)) \<Longrightarrow> sequence (map f xs) = Inr (map g xs)"
  by (induction xs) simp_all

lemma filled_row_cells:
  fixes label :: cell and c :: "VariantMetrics \<Rightarrow> cell"
  assumes "distinct (map variant_name vms)"
    and "\<forall>vm \<in> set vms. variant_name vm \<noteq> ''eventType''"
  defines "r \<equiv> [''eventType'' \<mapsto> label] ++ map_of (rev (map (\<lambda>vm. (variant_name vm, c vm)) vms))"
  shows "r ''eventType'' = Some label"
    and "\<forall>vm \<in> set vms. r (variant_name vm) = Some (c vm)"
    and "dom r = insert ''eventType'' (variant_name ` set vms)"
proof -
  let ?l = "rev (map (\<lambda>vm. (variant_name vm, c vm)) vms)"
  have f: "map fst ?l = rev (map variant_name vms)"
    by (simp add: rev_map comp_def)
  have d: "distinct (map fst ?l)"
    using assms(1) by (simp only: f distinct_rev)
  have n: "map_of ?l ''eventType'' = None"
    using assms(2) by (auto simp: map_of_eq_None_iff image_iff)
  then show "r ''eventType'' = Some label"
    by (simp add: r_def map_add_def)
  show "\<forall>vm \<in> set vms. r (variant_name vm) = Some (c vm)"
  proof
    fix vm assume "vm \<in> set vms"
    then have "(variant_name vm, c vm) \<in> set ?l" by auto
    with d have "map_of ?l (variant_name vm) = Some (c vm)"
      by (rule map_of_is_SomeI)
    then show "r (variant_name vm) = Some (c vm)"
      by (simp add: r_def map_add_def)
  qed
  show "dom r = insert ''eventType'' (variant_name ` set vms)"
    by (auto simp: r_def dom_map_of_conv_image_fst image_iff)
qed

text \<open>
  C2, as the code has it. Let the metrics entries all carry their \<open>events_by_type\<close> map,
  have pairwise different variant names, none of them \<open>eventType\<close> (the key of the row
  label) or \<open>__proto__\<close>, and let no event type be a name that objects inherit from
  \<open>Object.prototype\<close>. Then the matrix has exactly one row per distinct event type, in
  first-seen order across the entries; the row of a type is labelled with the
  capitalised type and has exactly one column per variant name, holding that variant's
  count for the type, or \<open>0\<close> when the variant has no entry for it.
\<close>

theorem matrix_view:
  assumes "variant_metrics R = Some vms"
    and "\<forall>vm \<in> set vms. events_by_type vm \<noteq> None"
    and "distinct (map variant_name vms)"
    and "\<forall>vm \<in> set vms. variant_name vm \<noteq> ''eventType'' \<and> variant_name vm \<noteq> ''__proto__''"
    and "\<forall>t \<in> set (event_type_union vms). t \<notin> set Object_prototype_names"
  shows "\<exists>rows. variantEventsData (Some R) = Inr rows \<and>
           distinct (event_type_union vms) \<and>
           set (event_type_union vms) = (\<Union>vm \<in> set vms. set (event_keys vm)) \<and>
           length rows = length (event_type_union vms) \<and>
           (\<forall>i < length rows.
              (rows ! i) ''eventType'' = Some (CStr (capitalize (event_type_union vms ! i))) \<and>
              (\<forall>vm \<in> set vms.
                 (rows ! i) (variant_name vm) =
                   Some (CNum (event_count vm (event_type_union vms ! i)))) \<and>
              dom (rows ! i) = insert ''eventType'' (variant_name ` set vms))"
proof -
  let ?types = "event_type_union vms"
  let ?g = "\<lambda>t. [''eventType'' \<mapsto> CStr (capitalize t)] ++
              map_of (rev (map (\<lambda>vm. (variant_name vm, CNum (event_count vm t))) vms))"
  have c: "collect_event_types [] vms = Inr ?types"
    using collect_event_types_union [OF assms(2), of "[]"]
    by (simp add: event_type_union_def)
  have "fill_row [''eventType'' \<mapsto> CStr (capitalize t)] t vms = Inr (?g t)"
    if "t \<in> set ?types" for t
    using that assms(2,4,5) by (intro fill_row_result) auto
  then have "sequence (map (\<lambda>t. fill_row [''eventType'' \<mapsto> CStr (capitalize t)] t vms) ?types) =
             Inr (map ?g ?types)"
    by (rule sequence_map)
  with c assms(1) have v: "variantEventsData (Some R) = Inr (map ?g ?types)"
    by (simp add: variantEventsData_def)
  have n: "\<forall>vm \<in> set vms. variant_name vm \<noteq> ''eventType''"
    using assms(4) by simp
  have "(map ?g ?types ! i) ''eventType'' = Some (CStr (capitalize (?types ! i))) \<and>
        (\<forall>vm \<in> set vms.
           (map ?g ?types ! i) (variant_name vm) = Some (CNum (event_count vm (?types ! i)))) \<and>
        dom (map ?g ?types ! i) = insert ''eventType'' (variant_name ` set vms)"
    if "i < length ?types" for i
    using that filled_row_cells [OF assms(3) n, of "CStr (capitalize (?types ! i))"
        "\<lambda>vm. CNum (event_count vm (?types ! i))"]
    by simp
  moreover have "set ?types = (\<Union>vm \<in> set vms. set (event_keys vm))"
    by (simp add: event_type_union_def set_first_seen)
  moreover have "distinct ?types"
    by (simp add: event_type_union_def distinct_first_seen)
  ultimately show ?thesis
    using v by simp
qed


lemma capitalize_examples:
  "capitalize ''click'' = ''Click''" "capitalize ''view'' = ''View''"
  "capitalize ''purchase'' = ''Purchase''"
  by (simp_all add: capitalize_def toUpperCase_char_def)

theorem matrix_view_witness:
  "map (\<lambda>r. (r ''eventType'', r ''A'', r ''B''))
     (case variantEventsData (Some two_variant_results) of Inr rows \<Rightarrow> rows | Inl e \<Rightarrow> []) =
   [(Some (CStr ''Click''), Some (CNum 15), Some (CNum 0)),
    (Some (CStr ''View''), Some (CNum 5), Some (CNum 7)),
    (Some (CStr ''Purchase''), Some (CNum 0), Some (CNum 2))]"
proof -
  let ?vms = "[example_metrics, metrics_B]"
  have t: "event_type_union ?vms = [''click'', ''view'', ''purchase'']"
    by (simp add: event_type_union_def event_keys_def example_metrics_def metrics_B_def)
  have h1: "variant_metrics two_variant_results = Some ?vms"
    by (simp add: two_variant_results_def)
  have h2: "\<forall>vm \<in> set ?vms. events_by_type vm \<noteq> None"
    by (simp add: example_metrics_def metrics_B_def)
  have h3: "distinct (map variant_name ?vms)"
    by (simp add: example_metrics_def metrics_B_def)
  have h4: "\<forall>vm \<in> set ?vms. variant_name vm \<noteq> ''eventType'' \<and> variant_name vm \<noteq> ''__proto__''"
    by (simp add: example_metrics_def metrics_B_def)
  have h5: "\<forall>t \<in> set (event_type_union ?vms). t \<notin> set Object_prototype_names"
    by (simp add: t Object_prototype_names_def)
  from matrix_view [OF h1 h2 h3 h4 h5] obtain rows where
    a: "variantEventsData (Some two_variant_results) = Inr rows \<and>
        distinct (event_type_union ?vms) \<and>
        set (event_type_union ?vms) = (\<Union>vm \<in> set ?vms. set (event_keys vm)) \<and>
        length rows = length (event_type_union ?vms) \<and>
        (\<forall>i < length rows.
           (rows ! i) ''eventType'' = Some (CStr (capitalize (event_type_union ?vms ! i))) \<and>
           (\<forall>vm \<in> set ?vms.
              (rows ! i) (variant_name vm) =
                Some (CNum (event_count vm (event_type_union ?vms ! i)))) \<and>
           dom (rows ! i) = insert ''eventType'' (variant_name ` set ?vms))" ..
  note v = a [THEN conjunct1]
  note l = a [THEN conjunct2, THEN conjunct2, THEN conjunct2, THEN conjunct1]
  note c = a [THEN conjunct2, THEN conjunct2, THEN conjunct2, THEN conjunct2]
  from l have l3: "length rows = 3"
    by (simp add: t)
  from l3 obtain x y z where r: "rows = [x, y, z]"
    by (cases rows; cases "tl rows"; cases "tl (tl rows)") auto
  have e: "event_count example_metrics ''click'' = 15" "event_count metrics_B ''click'' = 0"
    "event_count example_metrics ''view'' = 5" "event_count metrics_B ''view'' = 7"
    "event_count example_metrics ''purchase'' = 0" "event_count metrics_B ''purchase'' = 2"
    by (simp_all add: event_count_def example_metrics_def metrics_B_def)
  have n: "variant_name example_metrics = ''A''" "variant_name metrics_B = ''B''"
    by (simp_all add: example_metrics_def metrics_B_def)
  from c [rule_format, of 0] c [rule_format, of 1] c [rule_format, of 2]
  have "map (\<lambda>r. (r ''eventType'', r ''A'', r ''B'')) [x, y, z] =
        [(Some (CStr ''Click''), Some (CNum 15), Some (CNum 0)),
         (Some (CStr ''View''), Some (CNum 5), Some (CNum 7)),
         (Some (CStr ''Purchase''), Some (CNum 0), Some (CNum 2))]"
    by (simp add: r t capitalize_examples e n)
  with v r show ?thesis by simp
qed

text \<open>
  The claim as the specification words it holds for every results value. A variant
  that is named \<open>eventType\<close> overwrites the label of every row with its count: the row
  for \<open>click\<close> has the number 15, not the string \<open>Click\<close>, under \<open>eventType\<close>.
\<close>

theorem matrix_label_overwritten_counterexample:
  "map (\<lambda>r. r ''eventType'')
     (case variantEventsData (Some clash_results) of Inr rows \<Rightarrow> rows | Inl e \<Rightarrow> []) =
   [Some (CNum 15)]"
  by (simp add: variantEventsData_def clash_results_def set_add_def row_set_def cell_of_def)


text \<open>
  The other conditions are needed as well. Two entries with the same variant name share
  one column, which holds the count of the later entry; and for an event type that is
  also a name on \<open>Object.prototype\<close>, a variant without an entry for it gets the
  inherited member, not \<open>0\<close>.
\<close>

lemma matrix_duplicate_names_example:
  "map (\<lambda>r. (r ''eventType'', r ''A''))
     (case variantEventsData (Some duplicate_results) of Inr rows \<Rightarrow> rows | Inl e \<Rightarrow> []) =
   [(Some (CStr ''Click''), Some (CNum 2))]"
  by (simp add: variantEventsData_def duplicate_results_def example_metrics_def set_add_def
        row_set_def cell_of_def capitalize_examples)

lemma matrix_inherited_member_example:
  "map (\<lambda>r. (r ''eventType'', r ''A'', r ''B''))
     (case variantEventsData (Some inherited_results) of Inr rows \<Rightarrow> rows | Inl e \<Rightarrow> []) =
   [(Some (CStr ''ToString''), Some (CNum 3), Some (CInherited ''toString'')),
    (Some (CStr ''View''), Some (CNum 0), Some (CNum 7)),
    (Some (CStr ''Purchase''), Some (CNum 0), Some (CNum 2))]"
  by (simp add: variantEventsData_def inherited_results_def example_metrics_def metrics_B_def
        set_add_def row_set_def cell_of_def capitalize_examples Object_prototype_names_def
        capitalize_def toUpperCase_char_def)

end
